theory Spec2Isabelle
  imports Complex_Main
begin

section \<open>Floating-point values\<close>

text \<open>
  The arrays of \<^verbatim>\<open>flagstation.py\<close> hold IEEE doubles. A double is modelled as a
  real number or one of the three special values; rounding, overflow and the sign of zero
  are not modelled. The operations below follow the IEEE rules that numpy applies to the
  special values (a NaN operand gives NaN, \<open>inf - inf\<close> and \<open>0 * inf\<close> are NaN, a
  nonzero number divided by zero is infinite, a comparison with NaN is false).
\<close>

datatype fl = NaN | NInf | Fin real | PInf

text \<open>The exceptions of the model. \<open>sys.exit(n)\<close> raises \<open>SystemExit\<close>.
  \<open>Unmodelled\<close> is not an exception of Python: it is the result of the model on the one
  configuration it does not cover (see \<open>run\<close>).\<close>

datatype pyerr = IndexError | ZeroDivisionError | AssertionError | TypeError | ValueError
  | RuntimeError | SystemExit int | Unmodelled

text \<open>\<open>signed_inf s\<close>: the infinity of the sign of \<open>s\<close>, NaN when \<open>s = 0\<close>.\<close>

definition signed_inf :: "real \<Rightarrow> fl" where
  "signed_inf s = (if 0 < s then PInf else if s < 0 then NInf else NaN)"

fun fsign :: "fl \<Rightarrow> real" where
  "fsign NaN = 0"
| "fsign NInf = - 1"
| "fsign PInf = 1"
| "fsign (Fin x) = sgn x"

fun isnan :: "fl \<Rightarrow> bool" where
  "isnan NaN = True"
| "isnan _ = False"

fun fneg :: "fl \<Rightarrow> fl" where
  "fneg NaN = NaN"
| "fneg NInf = PInf"
| "fneg PInf = NInf"
| "fneg (Fin x) = Fin (- x)"

fun fabs :: "fl \<Rightarrow> fl" where
  "fabs NaN = NaN"
| "fabs NInf = PInf"
| "fabs PInf = PInf"
| "fabs (Fin x) = Fin \<bar>x\<bar>"

fun fadd :: "fl \<Rightarrow> fl \<Rightarrow> fl" where
  "fadd (Fin x) (Fin y) = Fin (x + y)"
| "fadd NaN _ = NaN"
| "fadd _ NaN = NaN"
| "fadd PInf NInf = NaN"
| "fadd NInf PInf = NaN"
| "fadd PInf _ = PInf"
| "fadd _ PInf = PInf"
| "fadd NInf _ = NInf"
| "fadd _ NInf = NInf"

definition fsub :: "fl \<Rightarrow> fl \<Rightarrow> fl" where
  "fsub x y = fadd x (fneg y)"

fun fmul :: "fl \<Rightarrow> fl \<Rightarrow> fl" where
  "fmul (Fin x) (Fin y) = Fin (x * y)"
| "fmul NaN _ = NaN"
| "fmul _ NaN = NaN"
| "fmul x y = signed_inf (fsign x * fsign y)"

text \<open>Division of numpy scalars and arrays: no exception, a zero divisor gives an
  infinity or NaN.\<close>

fun fdiv :: "fl \<Rightarrow> fl \<Rightarrow> fl" where
  "fdiv (Fin x) (Fin y) = (if y = 0 then signed_inf x else Fin (x / y))"
| "fdiv NaN _ = NaN"
| "fdiv _ NaN = NaN"
| "fdiv (Fin x) _ = Fin 0"
| "fdiv x (Fin y) = signed_inf (fsign x * (if y < 0 then - 1 else 1))"
| "fdiv _ _ = NaN"

fun fsqrt :: "fl \<Rightarrow> fl" where
  "fsqrt (Fin x) = (if x < 0 then NaN else Fin (sqrt x))"
| "fsqrt PInf = PInf"
| "fsqrt _ = NaN"

fun flog10 :: "fl \<Rightarrow> fl" where
  "flog10 (Fin x) = (if x < 0 then NaN else if x = 0 then NInf else Fin (log 10 x))"
| "flog10 PInf = PInf"
| "flog10 _ = NaN"

text \<open>\<open>10 ** x\<close>.\<close>

fun fpow10 :: "fl \<Rightarrow> fl" where
  "fpow10 (Fin x) = Fin (10 powr x)"
| "fpow10 PInf = PInf"
| "fpow10 NInf = Fin 0"
| "fpow10 NaN = NaN"

fun flt :: "fl \<Rightarrow> fl \<Rightarrow> bool" where
  "flt (Fin x) (Fin y) = (x < y)"
| "flt NaN _ = False"
| "flt _ NaN = False"
| "flt _ NInf = False"
| "flt PInf _ = False"
| "flt _ _ = True"

definition fgt :: "fl \<Rightarrow> fl \<Rightarrow> bool" where
  "fgt x y = flt y x"

definition feq :: "fl \<Rightarrow> fl \<Rightarrow> bool" where
  "feq x y = (\<not> isnan x \<and> x = y)"

definition fle :: "fl \<Rightarrow> fl \<Rightarrow> bool" where
  "fle x y = (flt x y \<or> feq x y)"

definition fge :: "fl \<Rightarrow> fl \<Rightarrow> bool" where
  "fge x y = fle y x"

text \<open>Python's built-in \<open>sum\<close> and \<open>ndarray.sum\<close>: the terms added from zero.\<close>

definition fsum :: "fl list \<Rightarrow> fl" where
  "fsum xs = foldl fadd (Fin 0) xs"

text \<open>Python's built-in \<open>min(a, b)\<close>: \<open>b\<close> only where \<open>b < a\<close>, so \<open>a\<close> when \<open>b\<close> is NaN.\<close>

definition pymin :: "fl \<Rightarrow> fl \<Rightarrow> fl" where
  "pymin a b = (if flt b a then b else a)"

section \<open>Spline basis evaluator\<close>

text \<open>
  \<^verbatim>\<open>_B(x, k, i, t, extrap, invert)\<close>, lines 179-196. A read of \<open>t\<close> beyond its end
  raises IndexError; the reads happen in the source's order (\<open>t[i+1]\<close> of the degree-0
  case only when \<open>t[i] <= x\<close> holds).
\<close>

fun B :: "fl \<Rightarrow> nat \<Rightarrow> nat \<Rightarrow> fl list \<Rightarrow> bool \<Rightarrow> bool \<Rightarrow> pyerr + fl" where
  "B x 0 i t extrap invert =
     (if extrap then (if invert then Inr (Fin (- 1)) else Inr (Fin 1))
      else if length t \<le> i then Inl IndexError
      else if fle (t ! i) x then
        (if length t \<le> i + 1 then Inl IndexError
         else Inr (if flt x (t ! (i + 1)) then Fin 1 else Fin 0))
      else Inr (Fin 0))"
| "B x (Suc k) i t extrap invert =
     (if length t \<le> i + Suc k then Inl IndexError
      else
        case (if feq (t ! (i + Suc k)) (t ! i) then Inr (Fin 0)
              else case B x k i t extrap invert of
                     Inl e \<Rightarrow> Inl e
                   | Inr b \<Rightarrow> Inr (fmul (fdiv (fsub x (t ! i))
                                               (fsub (t ! (i + Suc k)) (t ! i))) b)) of
          Inl e \<Rightarrow> Inl e
        | Inr c1 \<Rightarrow>
            if length t \<le> i + Suc k + 1 then Inl IndexError
            else
              case (if feq (t ! (i + Suc k + 1)) (t ! (i + 1)) then Inr (Fin 0)
                    else case B x k (i + 1) t extrap invert of
                           Inl e \<Rightarrow> Inl e
                         | Inr b \<Rightarrow> Inr (fmul (fdiv (fsub (t ! (i + Suc k + 1)) x)
                                                     (fsub (t ! (i + Suc k + 1)) (t ! (i + 1)))) b)) of
                Inl e \<Rightarrow> Inl e
              | Inr c2 \<Rightarrow> Inr (fadd c1 c2))"

text \<open>
  Lines 202-208 of \<^verbatim>\<open>_bspline\<close>: the extrapolation flag of each of the \<open>n\<close> basis
  functions, and \<open>invert\<close>. The source assigns \<open>invert = False\<close> before the test and
  again in the branch \<open>x < t[k]\<close>.
\<close>

definition extrap_flags :: "fl \<Rightarrow> fl list \<Rightarrow> nat \<Rightarrow> nat \<Rightarrow> bool list \<times> bool" where
  "extrap_flags x t k n =
     (let invert = False;
          extrap = replicate n False
      in if fge x (t ! n) then (extrap[n - 1 := True], invert)
         else if flt x (t ! k) then (extrap[0 := True], False)
         else (extrap, invert))"

text \<open>The generator \<open>c[i] * _B(x, k, i, t, e, invert)\<close> over \<open>zip(range(n), extrap)\<close>,
  stopping at the first exception.\<close>

fun bspline_terms :: "fl \<Rightarrow> fl list \<Rightarrow> fl list \<Rightarrow> nat \<Rightarrow> bool \<Rightarrow> (nat \<times> bool) list \<Rightarrow> pyerr + fl list" where
  "bspline_terms x t c k invert [] = Inr []"
| "bspline_terms x t c k invert ((i, e) # ies) =
     (if length c \<le> i then Inl IndexError
      else case B x k i t e invert of
             Inl err \<Rightarrow> Inl err
           | Inr b \<Rightarrow>
               (case bspline_terms x t c k invert ies of
                  Inl err \<Rightarrow> Inl err
                | Inr bs \<Rightarrow> Inr (fmul (c ! i) b # bs)))"

text \<open>
  \<^verbatim>\<open>_bspline(x, t, c, k)\<close>, lines 199-209. \<open>n = len(t) - k - 1\<close> is a Python integer
  and may be negative, in which case the assertion \<open>n >= k+1\<close> fails.
\<close>

definition bspline :: "fl \<Rightarrow> fl list \<Rightarrow> fl list \<Rightarrow> nat \<Rightarrow> pyerr + fl" where
  "bspline x t c k =
     (if length t < k + 1 + (k + 1) \<or> length c < length t - k - 1 then Inl AssertionError
      else
        let n = length t - k - 1;
            (extrap, invert) = extrap_flags x t k n
        in case bspline_terms x t c k invert (zip [0..<n] extrap) of
             Inl err \<Rightarrow> Inl err
           | Inr ts \<Rightarrow> Inr (fsum ts))"

section \<open>Arrays\<close>

text \<open>
  A task receives the slices \<^verbatim>\<open>vals_arraytmp[:, s, :, :]\<close> and
  \<^verbatim>\<open>weights_arraytmp[:, s, :, :]\<close> of one antenna: arrays of shape
  \<open>[time, freq, pol]\<close>. An array is its shape and its cells; a two-dimensional slice
  \<open>a[:, :, pol]\<close> is a function of the time and frequency index, with the shape of
  the array it is a view of. The value and the weight array of a task have the same shape
  (the caller slices them from two arrays of one shape); the models read the time and
  frequency extent from the weight array.
\<close>

record arr3 =
  ntime :: nat
  nfreq :: nat
  npol :: nat
  dat :: "nat \<Rightarrow> nat \<Rightarrow> nat \<Rightarrow> fl"

type_synonym slice2 = "nat \<Rightarrow> nat \<Rightarrow> fl"

text \<open>The slice \<open>a[:, :, pol]\<close>.\<close>

definition pol_slice :: "arr3 \<Rightarrow> nat \<Rightarrow> slice2" where
  "pol_slice a pol = (\<lambda>t f. dat a t f pol)"

text \<open>The index pairs of a \<open>[time, freq]\<close> slice in row-major order, as
  \<open>flatten()\<close> and \<open>np.where\<close> enumerate them.\<close>

definition cells :: "nat \<Rightarrow> nat \<Rightarrow> (nat \<times> nat) list" where
  "cells nt nf = List.product [0..<nt] [0..<nf]"

definition flatten :: "nat \<Rightarrow> nat \<Rightarrow> slice2 \<Rightarrow> fl list" where
  "flatten nt nf a = map (\<lambda>(t, f). a t f) (cells nt nf)"

text \<open>\<open>len(np.where(cond)[0])\<close> and \<open>np.all(cond)\<close> on a slice.\<close>

definition count_where :: "nat \<Rightarrow> nat \<Rightarrow> (nat \<Rightarrow> nat \<Rightarrow> bool) \<Rightarrow> nat" where
  "count_where nt nf c = length (filter (\<lambda>(t, f). c t f) (cells nt nf))"

definition all_where :: "nat \<Rightarrow> nat \<Rightarrow> (nat \<Rightarrow> nat \<Rightarrow> bool) \<Rightarrow> bool" where
  "all_where nt nf c = list_all (\<lambda>(t, f). c t f) (cells nt nf)"

text \<open>\<open>np.all(weights == 0.0)\<close> on the whole array.\<close>

definition all_zero :: "arr3 \<Rightarrow> bool" where
  "all_zero w = list_all (\<lambda>p. all_where (ntime w) (nfreq w) (\<lambda>t f. feq (dat w t f p) (Fin 0)))
                  [0..<npol w]"

text \<open>The assignment \<open>a[:, :, pol] = x\<close> of a slice (or, through a view, of some of its
  cells): the cells of polarization \<open>pol\<close> inside the array take the values of \<open>x\<close>.\<close>

definition set_pol :: "arr3 \<Rightarrow> nat \<Rightarrow> slice2 \<Rightarrow> arr3" where
  "set_pol a pol x =
     a\<lparr>dat := (\<lambda>t f p. if p = pol \<and> t < ntime a \<and> f < nfreq a then x t f else dat a t f p)\<rparr>"

text \<open>\<open>np.average(a, weights=w)\<close> on flattened arrays: ZeroDivisionError when the
  weights sum to zero.\<close>

definition np_average :: "fl list \<Rightarrow> fl list \<Rightarrow> pyerr + fl" where
  "np_average xs ws =
     (let scl = fsum ws
      in if feq scl (Fin 0) then Inl ZeroDivisionError
         else Inr (fdiv (fsum (map (\<lambda>(x, w). fmul x w) (zip xs ws))) scl))"

text \<open>\<open>np.nansum\<close>: the NaN terms are left out.\<close>

definition nansum :: "fl list \<Rightarrow> fl" where
  "nansum xs = fsum (filter (\<lambda>x. \<not> isnan x) xs)"

text \<open>Division of Python floats: ZeroDivisionError on a zero divisor.\<close>

definition py_div :: "fl \<Rightarrow> fl \<Rightarrow> pyerr + fl" where
  "py_div x y = (if feq y (Fin 0) then Inl ZeroDivisionError else Inr (fdiv x y))"

section \<open>Residual-clipping flagger\<close>

text \<open>
  Modelled from the spec: \<^verbatim>\<open>normalize_phase\<close> of \<^verbatim>\<open>losoto.lib_operations\<close>
  is not among the sources. The spec says of it that phase values are wrapped back into
  \<open>(-\<pi>, \<pi>]\<close> after the mean is subtracted; a value that is not finite has no phase
  and stays NaN. It returns a new array.
\<close>

definition wrap_phase :: "real \<Rightarrow> real" where
  "wrap_phase x = x - 2 * pi * of_int \<lceil>(x - pi) / (2 * pi)\<rceil>"

fun normalize_phase :: "fl \<Rightarrow> fl" where
  "normalize_phase (Fin x) = Fin (wrap_phase x)"
| "normalize_phase _ = NaN"

text \<open>
  Line 85, the numerator \<open>np.nansum(w * np.exp(1j*v))\<close>: a term whose value is not
  finite is NaN and is left out.
\<close>

fun cexp_term :: "fl \<times> fl \<Rightarrow> complex" where
  "cexp_term (Fin w, Fin v) = of_real w * cis v"
| "cexp_term _ = 0"

definition cexp_sum :: "fl list \<Rightarrow> fl list \<Rightarrow> complex" where
  "cexp_sum ws vs = sum_list (map cexp_term (zip ws vs))"

text \<open>
  Lines 84-87. \<open>ws\<close> and \<open>vs\<close> are the flattened weight and value slice. For phases
  the quotient is complex and \<open>np.angle\<close> takes its argument. Where the divisor
  \<open>size * sum(w)\<close> is not a finite nonzero number the phase mean is modelled as NaN: a
  zero sum of weights makes \<open>np.average\<close> raise in the first round of the loop, and a sum
  that is not finite belongs to weights that are not finite.
\<close>

definition resid_mean :: "string \<Rightarrow> fl list \<Rightarrow> fl list \<Rightarrow> fl" where
  "resid_mean soltype ws vs =
     (let d = fmul (Fin (real (length vs))) (fsum ws)
      in if soltype = ''phase'' then
           (case d of
              Fin r \<Rightarrow> if r = 0 then NaN else Fin (Arg (cexp_sum ws vs / of_real r))
            | _ \<Rightarrow> NaN)
         else fdiv (nansum (map (\<lambda>(w, v). fmul w v) (zip ws vs))) d)"

text \<open>Lines 68-72, on the cells of a polarization: a value that is NaN (or, unless the
  solutions are phases, not positive) is a bad solution, and its weight becomes zero.
  \<open>weights_orig\<close> is a view of \<open>weights[:, :, pol]\<close>, so this is an assignment to the
  weight array.\<close>

definition bad_sols :: "string \<Rightarrow> fl \<Rightarrow> bool" where
  "bad_sols soltype x =
     (if soltype = ''phase'' then isnan x else isnan x \<or> fle x (Fin 0))"

definition resid_weights_orig :: "string \<Rightarrow> slice2 \<Rightarrow> slice2 \<Rightarrow> slice2" where
  "resid_weights_orig soltype v w = (\<lambda>t f. if bad_sols soltype (v t f) then Fin 0 else w t f)"

text \<open>Lines 79-81: \<open>vals[:, :, pol] = np.log10(vals[:, :, pol])\<close> for amplitudes.\<close>

definition resid_log :: "string \<Rightarrow> slice2 \<Rightarrow> slice2" where
  "resid_log soltype v = (if soltype = ''amplitude'' then (\<lambda>t f. flog10 (v t f)) else v)"

text \<open>Lines 88-92: the residuals \<open>vals_flagged\<close>, from the value slice \<open>v\<close> (after the
  logarithm, for amplitudes), the mean and the slice \<open>weights_orig\<close>.\<close>

definition resid_vals_flagged :: "string \<Rightarrow> fl \<Rightarrow> slice2 \<Rightarrow> slice2 \<Rightarrow> slice2" where
  "resid_vals_flagged soltype mean v weights_orig =
     (\<lambda>t f. if feq (weights_orig t f) (Fin 0) then Fin 0
             else if soltype = ''phase'' then normalize_phase (fsub (v t f) mean)
             else v t f)"

text \<open>
  The state of the loop of lines 96-112. \<open>rounds\<close> is not a variable of the source: it
  counts the executions of the loop body. \<open>bad\<close> is assigned in the first round, which
  always runs (\<open>0 \<noteq> -1\<close> and \<open>0 < 5\<close>).
\<close>

record loop_state =
  nflag :: nat
  nflag_prev :: int
  niter :: nat
  weights_copy :: slice2
  bad :: "nat \<Rightarrow> nat \<Rightarrow> bool"
  rounds :: nat

definition maxiter :: nat where
  "maxiter = 5"

text \<open>Lines 102-105: the flagged cells \<open>bad\<close> of a round and their number, from the
  residuals and the mask \<open>weights_copy\<close> of the round.\<close>

definition resid_round ::
  "nat \<Rightarrow> nat \<Rightarrow> slice2 \<Rightarrow> fl \<Rightarrow> fl \<Rightarrow> slice2 \<Rightarrow> pyerr + (nat \<Rightarrow> nat \<Rightarrow> bool) \<times> nat" where
  "resid_round nt nf vals_flagged nSigma maxStddev weights_copy' =
     (case np_average (flatten nt nf (\<lambda>t f. fmul (vals_flagged t f) (vals_flagged t f)))
                      (flatten nt nf weights_copy') of
        Inl e \<Rightarrow> Inl e
      | Inr avg \<Rightarrow>
          let stdev_all = fsqrt avg;
              stdev = pymin maxStddev stdev_all;
              bad' = (\<lambda>t f. fgt (fabs (vals_flagged t f)) (fmul nSigma stdev))
          in Inr (bad', count_where nt nf bad'))"

function resid_loop ::
  "nat \<Rightarrow> nat \<Rightarrow> slice2 \<Rightarrow> slice2 \<Rightarrow> fl \<Rightarrow> fl \<Rightarrow> nat \<Rightarrow> loop_state \<Rightarrow> pyerr + loop_state" where
  "resid_loop nt nf vals_flagged weights_orig nSigma maxStddev nsols_unflagged st =
     (if int (nflag st) \<noteq> nflag_prev st \<and> niter st < maxiter then
        (case resid_round nt nf vals_flagged nSigma maxStddev (weights_copy st) of
           Inl e \<Rightarrow> Inl e
         | Inr (bad', nflag') \<Rightarrow>
             if nflag' = 0 \<or> nflag' = nsols_unflagged
             then Inr (st\<lparr>nflag := nflag', bad := bad', rounds := rounds st + 1\<rparr>)
             else resid_loop nt nf vals_flagged weights_orig nSigma maxStddev nsols_unflagged
                    (st\<lparr>nflag := nflag',
                        nflag_prev := (if niter st > 0 then int nflag' else nflag_prev st),
                        weights_copy := (\<lambda>t f. if bad' t f then Fin 0 else weights_orig t f),
                        bad := bad',
                        niter := niter st + 1,
                        rounds := rounds st + 1\<rparr>))
      else Inr st)"
  by pat_completeness auto
termination
  by (relation "measure (\<lambda>(nt, nf, vf, wo, ns, ms, nu, st). maxiter - niter st)") auto

declare resid_loop.simps [simp del]

text \<open>Lines 96-100: the state before the loop.\<close>

definition loop_init :: "slice2 \<Rightarrow> loop_state" where
  "loop_init weights_orig =
     \<lparr>nflag = 0, nflag_prev = - 1, niter = 0, weights_copy = weights_orig,
      bad = (\<lambda>t f. False), rounds = 0\<rparr>"

text \<open>Lines 84-92 and 95, from the value slice \<open>v\<close> and the weight slice \<open>w\<close> of a
  polarization as the iteration finds them: the residuals \<open>vals_flagged\<close> and the number
  of unflagged cells.\<close>

definition resid_residuals :: "string \<Rightarrow> nat \<Rightarrow> nat \<Rightarrow> slice2 \<Rightarrow> slice2 \<Rightarrow> slice2" where
  "resid_residuals soltype nt nf v w =
     (let weights_orig = resid_weights_orig soltype v w;
          mean = resid_mean soltype (flatten nt nf weights_orig) (flatten nt nf (resid_log soltype v))
      in resid_vals_flagged soltype mean (resid_log soltype v) weights_orig)"

definition resid_nsols :: "string \<Rightarrow> nat \<Rightarrow> nat \<Rightarrow> slice2 \<Rightarrow> slice2 \<Rightarrow> nat" where
  "resid_nsols soltype nt nf v w =
     count_where nt nf (\<lambda>t f. \<not> feq (resid_weights_orig soltype v w t f) (Fin 0))"

text \<open>Lines 84-112: the iterative clipping of a polarization, up to the state in which
  the loop ends.\<close>

definition resid_clip ::
  "string \<Rightarrow> fl \<Rightarrow> fl \<Rightarrow> nat \<Rightarrow> nat \<Rightarrow> slice2 \<Rightarrow> slice2 \<Rightarrow> pyerr + loop_state" where
  "resid_clip soltype nSigma maxStddev nt nf v w =
     resid_loop nt nf (resid_residuals soltype nt nf v w) (resid_weights_orig soltype v w)
       nSigma maxStddev (resid_nsols soltype nt nf v w)
       (loop_init (resid_weights_orig soltype v w))"

text \<open>
  One iteration of \<open>for pol in range(npols)\<close>, lines 66-127, on the pair of the value
  and the weight array. \<open>weights_orig\<close> and (unless the solutions are phases, for which
  \<^verbatim>\<open>normalize_phase\<close> makes a new array) \<open>vals_flagged\<close> are views, so the
  assignments to their cells are assignments to the arrays. Both branches of the gate
  format a log message with \<open>ants[s]\<close>.
\<close>

definition resid_pol ::
  "string \<Rightarrow> fl \<Rightarrow> fl \<Rightarrow> fl \<Rightarrow> string list \<Rightarrow> nat \<Rightarrow> nat \<Rightarrow> arr3 \<times> arr3 \<Rightarrow> pyerr + arr3 \<times> arr3" where
  "resid_pol soltype nSigma maxFlaggedFraction maxStddev ants s pol st =
     (let (vals, weights) = st;
          nt = ntime weights; nf = nfreq weights;
          v = pol_slice vals pol;
          w = pol_slice weights pol;
          weights_orig = resid_weights_orig soltype v w;
          weights1 = set_pol weights pol weights_orig
      in if all_where nt nf (\<lambda>t f. feq (weights_orig t f) (Fin 0)) then Inr (vals, weights1)
         else
           let vals1 = (if soltype = ''amplitude'' then set_pol vals pol (resid_log soltype v)
                        else vals);
               vals_flagged = resid_residuals soltype nt nf v w;
               vals2 = (if soltype = ''phase'' then vals1 else set_pol vals1 pol vals_flagged);
               nsols_unflagged = resid_nsols soltype nt nf v w
           in case resid_clip soltype nSigma maxStddev nt nf v w of
                Inl e \<Rightarrow> Inl e
              | Inr fin \<Rightarrow>
                  (case py_div (Fin (real (count_where nt nf (bad fin))))
                               (Fin (real nsols_unflagged)) of
                     Inl e \<Rightarrow> Inl e
                   | Inr fraction \<Rightarrow>
                       if length ants \<le> s then Inl IndexError
                       else if fgt fraction maxFlaggedFraction
                       then Inr (vals2, set_pol weights1 pol (\<lambda>t f. Fin 0))
                       else Inr (vals2, set_pol weights1 pol (weights_copy fin))))"

fun resid_pols ::
  "string \<Rightarrow> fl \<Rightarrow> fl \<Rightarrow> fl \<Rightarrow> string list \<Rightarrow> nat \<Rightarrow> nat list \<Rightarrow> arr3 \<times> arr3 \<Rightarrow> pyerr + arr3 \<times> arr3" where
  "resid_pols soltype nSigma maxFlaggedFraction maxStddev ants s [] st = Inr st"
| "resid_pols soltype nSigma maxFlaggedFraction maxStddev ants s (pol # pols) st =
     (case resid_pol soltype nSigma maxFlaggedFraction maxStddev ants s pol st of
        Inl e \<Rightarrow> Inl e
      | Inr st' \<Rightarrow> resid_pols soltype nSigma maxFlaggedFraction maxStddev ants s pols st')"

text \<open>
  \<^verbatim>\<open>_flag_resid\<close>, lines 22-129. The result is an exception, or the value array as
  the task leaves it together with the item \<open>[s, weights]\<close> put on the queue. The log
  messages are not modelled.
\<close>

definition flag_resid ::
  "arr3 \<Rightarrow> arr3 \<Rightarrow> string \<Rightarrow> fl \<Rightarrow> fl \<Rightarrow> fl \<Rightarrow> string list \<Rightarrow> nat \<Rightarrow> pyerr + arr3 \<times> nat \<times> arr3" where
  "flag_resid vals weights soltype nSigma maxFlaggedFraction maxStddev ants s =
     (if all_zero weights then Inr (vals, s, weights)
      else case resid_pols soltype nSigma maxFlaggedFraction maxStddev ants s [0..<npol vals]
                  (vals, weights) of
             Inl e \<Rightarrow> Inl e
           | Inr (vals', weights') \<Rightarrow> Inr (vals', s, weights'))"

section \<open>Bandpass models and fitter\<close>

text \<open>\<open>np.median\<close> of a one-dimensional array: NaN for an empty array or one that holds a
  NaN, else the middle of the sorted values (the mean of the two middle ones for an even
  length). \<open>np.nanmedian\<close> is the median of the values that are not NaN.\<close>

fun fl_insort :: "fl \<Rightarrow> fl list \<Rightarrow> fl list" where
  "fl_insort x [] = [x]"
| "fl_insort x (y # ys) = (if fle x y then x # y # ys else y # fl_insort x ys)"

definition fl_sort :: "fl list \<Rightarrow> fl list" where
  "fl_sort xs = foldr fl_insort xs []"

definition np_median :: "fl list \<Rightarrow> fl" where
  "np_median xs =
     (if xs = [] \<or> list_ex isnan xs then NaN
      else let ys = fl_sort xs; n = length ys
           in if odd n then ys ! (n div 2)
              else fdiv (fadd (ys ! (n div 2 - 1)) (ys ! (n div 2))) (Fin 2))"

definition np_nanmedian :: "fl list \<Rightarrow> fl" where
  "np_nanmedian xs = np_median (filter (\<lambda>x. \<not> isnan x) xs)"

text \<open>\<open>str.lower()\<close> on ASCII strings.\<close>

definition lower_char :: "char \<Rightarrow> char" where
  "lower_char c =
     (case map_of (zip ''ABCDEFGHIJKLMNOPQRSTUVWXYZ'' ''abcdefghijklmnopqrstuvwxyz'') c of
        Some d \<Rightarrow> d
      | None \<Rightarrow> c)"

definition lower :: "string \<Rightarrow> string" where
  "lower s = map lower_char s"

text \<open>The list comprehension \<open>[_bspline(f, knots, coeffs, 3) for f in freq]\<close>.\<close>

fun bspline_all :: "fl list \<Rightarrow> fl list \<Rightarrow> fl list \<Rightarrow> pyerr + fl list" where
  "bspline_all [] knots coeffs = Inr []"
| "bspline_all (f # fs) knots coeffs =
     (case bspline f knots coeffs 3 of
        Inl e \<Rightarrow> Inl e
      | Inr v \<Rightarrow> (case bspline_all fs knots coeffs of Inl e \<Rightarrow> Inl e | Inr vs \<Rightarrow> Inr (v # vs)))"

definition knots_LBA :: "fl list" where
  "knots_LBA = map Fin [30003357, 30003357, 30003357, 30003357, 40000000,
                        50000000, 55000000, 56000000, 60000000, 62000000,
                        63000000, 64000000, 70000000, 77610779, 77610779,
                        77610779, 77610779]"

definition knots_HBA_low :: "fl list" where
  "knots_HBA_low = map Fin [115000000, 115000000, 115000000, 115000000,
                            130000000, 138000000, 148000000, 160000000,
                            168000000, 178000000, 190000000, 190000000,
                            190000000, 190000000]"

text \<open>\<^verbatim>\<open>_bandpass_LBA(freq, c1, ..., c13)\<close> and \<^verbatim>\<open>_bandpass_HBA_low(freq, c1, ..., c10)\<close>,
  lines 212-268. The coefficients are passed as a list; a call with another number of
  them is a TypeError.\<close>

definition bandpass_LBA :: "fl list \<Rightarrow> fl list \<Rightarrow> pyerr + fl list" where
  "bandpass_LBA freq coeffs =
     (if length coeffs \<noteq> 13 then Inl TypeError else bspline_all freq knots_LBA coeffs)"

definition bandpass_HBA_low :: "fl list \<Rightarrow> fl list \<Rightarrow> pyerr + fl list" where
  "bandpass_HBA_low freq coeffs =
     (if length coeffs \<noteq> 10 then Inl TypeError else bspline_all freq knots_HBA_low coeffs)"

definition init_coeffs_HBA_low :: "fl list" where
  "init_coeffs_HBA_low = map Fin [- 0.01460369, 0.05062699, 0.02827004, 0.03738518,
                                  - 0.05729109, 0.02303295, - 0.03550487, - 0.0803113,
                                  - 0.2394929, - 0.358301]"

definition bounds_deltas_lower_HBA_low :: "fl list" where
  "bounds_deltas_lower_HBA_low = map Fin [0.06, 0.05, 0.04, 0.04, 0.04, 0.04, 0.1, 0.1, 0.2, 0.5]"

definition bounds_deltas_upper_HBA_low :: "fl list" where
  "bounds_deltas_upper_HBA_low = map Fin [0.06, 0.1, 0.1, 0.1, 0.04, 0.04, 0.04, 0.04, 0.05, 0.06]"

definition init_coeffs_LBA :: "fl list" where
  "init_coeffs_LBA = map Fin [- 0.22654016, - 0.1950495, - 0.07763014, 0.10002095,
                              0.32797671, 0.46900048, 0.47155583, 0.31945897,
                              0.29072278, 0.08064795, - 0.15761538, - 0.36020451,
                              - 0.51163338]"

definition bounds_deltas_LBA :: "fl list" where
  "bounds_deltas_LBA = map Fin [0.25, 0.2, 0.05, 0.05, 0.05, 0.05, 0.08, 0.05, 0.08, 0.15,
                                0.15, 0.15, 0.15]"

text \<open>
  \<open>scipy.optimize.curve_fit\<close> is a library routine and a parameter of the model: from the
  model function, the frequencies, the data, the sigmas and the pair of bounds it gives the
  fitted coefficients or raises.
\<close>

type_synonym curve_fit_t =
  "(fl list \<Rightarrow> fl list \<Rightarrow> pyerr + fl list) \<Rightarrow> fl list \<Rightarrow> fl list \<Rightarrow> fl list
     \<Rightarrow> fl list \<times> fl list \<Rightarrow> pyerr + fl list"

text \<open>Lines 326-338, for the model function, initial coefficients and deltas of a band.
  Only \<open>RuntimeError\<close> is caught.\<close>

definition fit_with ::
  "curve_fit_t \<Rightarrow> (fl list \<Rightarrow> fl list \<Rightarrow> pyerr + fl list) \<Rightarrow> fl list \<Rightarrow> fl list \<Rightarrow> fl list
     \<Rightarrow> fl list \<Rightarrow> fl list \<Rightarrow> fl list \<Rightarrow> bool \<Rightarrow> pyerr + fl list option \<times> fl list" where
  "fit_with curve_fit bandpass_function init_coeffs bounds_deltas_lower bounds_deltas_upper
            freq logamp sigma do_fit =
     (let fallback = (case bandpass_function freq init_coeffs of
                        Inl e \<Rightarrow> Inl e | Inr bp \<Rightarrow> Inr (None, bp))
      in if do_fit then
           let lower_b = map2 fsub init_coeffs bounds_deltas_lower;
               upper_b = map2 fadd init_coeffs bounds_deltas_upper
           in case curve_fit bandpass_function freq logamp sigma (lower_b, upper_b) of
                Inl e \<Rightarrow> if e = RuntimeError then fallback else Inl e
              | Inr popt \<Rightarrow>
                  (case bandpass_function freq popt of
                     Inl e \<Rightarrow> if e = RuntimeError then fallback else Inl e
                   | Inr bp \<Rightarrow> Inr (Some popt, bp))
         else fallback)"

text \<open>\<^verbatim>\<open>_fit_bandpass(freq, logamp, sigma, band, do_fit)\<close>, lines 271-338.\<close>

definition fit_bandpass ::
  "curve_fit_t \<Rightarrow> fl list \<Rightarrow> fl list \<Rightarrow> fl list \<Rightarrow> string \<Rightarrow> bool
     \<Rightarrow> pyerr + fl list option \<times> fl list" where
  "fit_bandpass curve_fit freq logamp sigma band do_fit =
     (if lower band = ''hba_low'' then
        fit_with curve_fit bandpass_HBA_low init_coeffs_HBA_low
          bounds_deltas_lower_HBA_low bounds_deltas_upper_HBA_low freq logamp sigma do_fit
      else if lower band = ''lba'' then
        fit_with curve_fit bandpass_LBA init_coeffs_LBA
          bounds_deltas_LBA bounds_deltas_LBA freq logamp sigma do_fit
      else Inl (SystemExit 1))"

section \<open>Bandpass-clipping flagger\<close>

text \<open>
  The one-dimensional arrays over the frequency axis (\<open>freqs\<close>, \<open>amps_div\<close>,
  \<open>sigma_div\<close>, \<open>bp_sp\<close>, \<open>bad\<close>) are lists; \<open>freqs\<close> has one entry for each index
  of the frequency axis of the arrays, as the caller passes \<^verbatim>\<open>soltab.freq[:]\<close>.
\<close>

text \<open>Lines 341-354: the band and the valid range of the median amplitude, for a
  supported telescope.\<close>

definition select_band :: "fl list \<Rightarrow> pyerr + string \<times> fl \<times> fl" where
  "select_band freqs =
     (if flt (np_median freqs) (Fin 180000000) \<and> fgt (np_median freqs) (Fin 110000000)
      then Inr (''hba_low'', Fin 50, Fin 200)
      else if flt (np_median freqs) (Fin 90000000)
      then Inr (''lba'', Fin 50, Fin 200)
      else Inl (SystemExit 1))"

text \<open>Lines 366-372: \<open>amps_flagged\<close> and \<open>sigma\<close>, from the arrays the task is called
  with.\<close>

definition bp_flagged :: "arr3 \<Rightarrow> arr3 \<Rightarrow> nat \<Rightarrow> nat \<Rightarrow> nat \<Rightarrow> bool" where
  "bp_flagged amps weights t f p = (feq (dat weights t f p) (Fin 0) \<or> isnan (dat amps t f p))"

definition amps_flagged :: "arr3 \<Rightarrow> arr3 \<Rightarrow> nat \<Rightarrow> nat \<Rightarrow> nat \<Rightarrow> fl" where
  "amps_flagged amps weights t f p = (if bp_flagged amps weights t f p then NaN else dat amps t f p)"

definition sigma_of :: "arr3 \<Rightarrow> arr3 \<Rightarrow> nat \<Rightarrow> nat \<Rightarrow> nat \<Rightarrow> fl" where
  "sigma_of amps weights t f p =
     (if bp_flagged amps weights t f p then Fin 100000000
      else fsqrt (fdiv (Fin 1) (dat weights t f p)))"

text \<open>
  The state of the loop of lines 408-424. \<open>bp_rounds\<close> is not a variable of the source:
  it counts the executions of the loop body. \<open>stdev_all\<close> is assigned in the first round,
  which always runs.
\<close>

record bp_loop_state =
  bp_nflag :: nat
  bp_nflag_prev :: int
  bp_niter :: nat
  sigma_div :: "fl list"
  bp_bad :: "bool list"
  stdev_all :: fl
  bp_sp :: "fl list"
  bp_rounds :: nat

text \<open>Lines 413-417: the fit of a round, \<open>stdev_all\<close>, the flagged frequencies \<open>bad\<close>
  and their number, from the sigmas \<open>sigma_div\<close> of the round.\<close>

definition bandpass_round ::
  "curve_fit_t \<Rightarrow> fl list \<Rightarrow> string \<Rightarrow> fl list \<Rightarrow> fl \<Rightarrow> fl \<Rightarrow> fl list
     \<Rightarrow> pyerr + fl list \<times> fl \<times> bool list \<times> nat" where
  "bandpass_round curve_fit freqs band amps_div nSigma maxStddev sigma_div' =
     (case fit_bandpass curve_fit freqs (map flog10 amps_div) sigma_div' band True of
        Inl e \<Rightarrow> Inl e
      | Inr (p, bp) \<Rightarrow>
          let res = map2 fsub bp (map flog10 amps_div)
          in case np_average (map (\<lambda>r. fmul r r) res)
                             (map (\<lambda>sg. fmul (fdiv (Fin 1) sg) (fdiv (Fin 1) sg)) sigma_div') of
               Inl e \<Rightarrow> Inl e
             | Inr avg \<Rightarrow>
                 let stdev_all' = fsqrt avg;
                     stdev = pymin maxStddev stdev_all';
                     bad' = map (\<lambda>r. fgt (fabs r) (fmul nSigma stdev)) res
                 in Inr (bp, stdev_all', bad', length (filter (\<lambda>b. b) bad')))"

function bandpass_loop ::
  "curve_fit_t \<Rightarrow> fl list \<Rightarrow> string \<Rightarrow> fl list \<Rightarrow> fl list \<Rightarrow> fl \<Rightarrow> fl \<Rightarrow> nat
     \<Rightarrow> bp_loop_state \<Rightarrow> pyerr + bp_loop_state" where
  "bandpass_loop curve_fit freqs band amps_div sigma_orig nSigma maxStddev nsols_unflagged st =
     (if int (bp_nflag st) \<noteq> bp_nflag_prev st \<and> bp_niter st < maxiter then
        (case bandpass_round curve_fit freqs band amps_div nSigma maxStddev (sigma_div st) of
           Inl e \<Rightarrow> Inl e
         | Inr (bp, stdev_all', bad', nflag') \<Rightarrow>
             if nflag' = 0 \<or> nflag' = nsols_unflagged
             then Inr (st\<lparr>bp_nflag := nflag', bp_bad := bad', stdev_all := stdev_all',
                         bp_sp := bp, bp_rounds := bp_rounds st + 1\<rparr>)
             else bandpass_loop curve_fit freqs band amps_div sigma_orig nSigma maxStddev
                    nsols_unflagged
                    (st\<lparr>bp_nflag := nflag',
                        bp_nflag_prev := (if bp_niter st > 0 then int nflag'
                                          else bp_nflag_prev st),
                        sigma_div := map2 (\<lambda>sg b. if b then Fin 100000000 else sg)
                                       sigma_orig bad',
                        bp_bad := bad',
                        stdev_all := stdev_all',
                        bp_sp := bp,
                        bp_niter := bp_niter st + 1,
                        bp_rounds := bp_rounds st + 1\<rparr>))
      else Inr st)"
  by pat_completeness auto
termination
  by (relation "measure (\<lambda>(cf, fr, b, a, so, ns, ms, nu, st). maxiter - bp_niter st)") auto

declare bandpass_loop.simps [simp del]

text \<open>Lines 385-387: the median over time of the unflagged amplitudes of a
  polarization, divided by its own median.\<close>

definition median_spectrum :: "arr3 \<Rightarrow> arr3 \<Rightarrow> nat \<Rightarrow> fl list" where
  "median_spectrum amps weights0 pol =
     (let amps_div = map (\<lambda>f. np_nanmedian (map (\<lambda>t. amps_flagged amps weights0 t f pol)
                                               [0..<ntime weights0]))
                       [0..<nfreq weights0];
          median_val = np_nanmedian amps_div
      in map (\<lambda>a. fdiv a median_val) amps_div)"

text \<open>Lines 381-405: the median spectrum of a polarization, normalised to the model,
  with its sigmas; the result is \<open>amps_div\<close>, \<open>sigma_orig\<close>, \<open>nsols_unflagged\<close> and the
  state before the loop.\<close>

definition bandpass_prepare ::
  "curve_fit_t \<Rightarrow> fl list \<Rightarrow> string \<Rightarrow> arr3 \<Rightarrow> arr3 \<Rightarrow> nat
     \<Rightarrow> pyerr + fl list \<times> fl list \<times> nat \<times> bp_loop_state" where
  "bandpass_prepare curve_fit freqs band amps weights0 pol =
     (let nt = ntime weights0; nf = nfreq weights0;
          amps_div1 = median_spectrum amps weights0 pol;
          sigma_div0 = map (\<lambda>f. np_median (map (\<lambda>t. sigma_of amps weights0 t f pol) [0..<nt]))
                         [0..<nf];
          sigma_orig = sigma_div0;
          nsols_unflagged = length (filter (\<lambda>a. \<not> isnan a) amps_div1);
          sigma_div1 = map2 (\<lambda>a sg. if isnan a then Fin 100000000 else sg) amps_div1 sigma_div0;
          amps_div2 = map (\<lambda>a. if isnan a then Fin 1 else a) amps_div1;
          sigma_div2 = map2 (\<lambda>a sg. if fle a (Fin 0) then Fin 100000000 else sg) amps_div2 sigma_div1;
          amps_div3 = map (\<lambda>a. if fle a (Fin 0) then Fin 1 else a) amps_div2
      in case fit_bandpass curve_fit freqs (map flog10 amps_div3) sigma_div2 band False of
           Inl e \<Rightarrow> Inl e
         | Inr (p, bp) \<Rightarrow>
             let normval = np_median (map2 fsub (map flog10 amps_div3) bp);
                 amps_div4 = map (\<lambda>a. fdiv a (fpow10 normval)) amps_div3;
                 bad0 = map2 (\<lambda>b a. fgt (fabs (fsub b (flog10 a))) (Fin 0.2)) bp amps_div4;
                 sigma_div3 = map2 (\<lambda>sg b. if b then Fin 100000000 else sg) sigma_div2 bad0
             in Inr (amps_div4, sigma_orig, nsols_unflagged,
                     \<lparr>bp_nflag = 0, bp_nflag_prev = - 1, bp_niter = 0, sigma_div = sigma_div3,
                      bp_bad = bad0, stdev_all = NaN, bp_sp = bp, bp_rounds = 0\<rparr>))"

text \<open>Lines 381-424: the iterative clipping of a polarization, up to the number of
  unflagged frequencies and the state in which the loop ends.\<close>

definition bandpass_clip ::
  "curve_fit_t \<Rightarrow> fl list \<Rightarrow> string \<Rightarrow> arr3 \<Rightarrow> arr3 \<Rightarrow> fl \<Rightarrow> fl \<Rightarrow> nat
     \<Rightarrow> pyerr + nat \<times> bp_loop_state" where
  "bandpass_clip curve_fit freqs band amps weights0 nSigma maxStddev pol =
     (case bandpass_prepare curve_fit freqs band amps weights0 pol of
        Inl e \<Rightarrow> Inl e
      | Inr (amps_div, sigma_orig, nsols_unflagged, st0) \<Rightarrow>
          (case bandpass_loop curve_fit freqs band amps_div sigma_orig nSigma maxStddev
                  nsols_unflagged st0 of
             Inl e \<Rightarrow> Inl e
           | Inr fin \<Rightarrow> Inr (nsols_unflagged, fin)))"

text \<open>Line 450: \<open>amps[np.where(weights[:, :, pol] > 0.0)]\<close> selects, for each selected
  cell, the amplitudes of all polarizations.\<close>

definition amps_where_positive :: "arr3 \<Rightarrow> arr3 \<Rightarrow> nat \<Rightarrow> fl list" where
  "amps_where_positive amps weights pol =
     concat (map (\<lambda>(t, f). map (\<lambda>p. dat amps t f p) [0..<npol amps])
               (filter (\<lambda>(t, f). fgt (dat weights t f pol) (Fin 0))
                  (cells (ntime weights) (nfreq weights))))"

text \<open>
  One iteration of \<open>for pol in range(npols)\<close>, lines 377-459. \<open>weights0\<close> is the weight
  array the task was called with (\<open>amps_flagged\<close> and \<open>sigma\<close> are computed from it before
  the loop over the polarizations), \<open>weights\<close> the array as the earlier iterations left
  it. Every branch of the gates formats a log message with \<open>ants[s]\<close>.
\<close>

definition bandpass_pol ::
  "curve_fit_t \<Rightarrow> fl list \<Rightarrow> string \<Rightarrow> fl \<Rightarrow> fl \<Rightarrow> arr3 \<Rightarrow> arr3 \<Rightarrow> fl \<Rightarrow> fl \<Rightarrow> fl
     \<Rightarrow> string list \<Rightarrow> nat \<Rightarrow> nat \<Rightarrow> arr3 \<Rightarrow> pyerr + arr3" where
  "bandpass_pol curve_fit freqs band median_min median_max amps weights0 nSigma
                maxFlaggedFraction maxStddev ants s pol weights =
     (if all_where (ntime weights) (nfreq weights) (\<lambda>t f. feq (dat weights t f pol) (Fin 0))
      then Inr weights
      else
        case bandpass_clip curve_fit freqs band amps weights0 nSigma maxStddev pol of
          Inl e \<Rightarrow> Inl e
        | Inr (nsols_unflagged, fin) \<Rightarrow>
            if fgt (stdev_all fin) (fmul nSigma maxStddev) then
              (if length ants \<le> s then Inl IndexError
               else Inr (set_pol weights pol (\<lambda>t f. Fin 0)))
            else
              (case py_div (Fin (real (length (filter (\<lambda>b. b) (bp_bad fin)))))
                           (Fin (real nsols_unflagged)) of
                 Inl e \<Rightarrow> Inl e
               | Inr fraction \<Rightarrow>
                   if fgt fraction maxFlaggedFraction then
                     (if length ants \<le> s then Inl IndexError
                      else Inr (set_pol weights pol (\<lambda>t f. Fin 0)))
                   else
                     let weights1 = set_pol weights pol
                           (\<lambda>t f. if f < length (sigma_div fin) \<and> fgt (sigma_div fin ! f) (Fin 1000)
                                   then Fin 0 else dat weights t f pol);
                         median_val = np_nanmedian (amps_where_positive amps weights1 pol)
                     in if length ants \<le> s then Inl IndexError
                        else if flt median_val median_min \<or> fgt median_val median_max
                        then Inr (set_pol weights1 pol (\<lambda>t f. Fin 0))
                        else Inr weights1))"

fun bandpass_pols ::
  "curve_fit_t \<Rightarrow> fl list \<Rightarrow> string \<Rightarrow> fl \<Rightarrow> fl \<Rightarrow> arr3 \<Rightarrow> arr3 \<Rightarrow> fl \<Rightarrow> fl \<Rightarrow> fl
     \<Rightarrow> string list \<Rightarrow> nat \<Rightarrow> nat list \<Rightarrow> arr3 \<Rightarrow> pyerr + arr3" where
  "bandpass_pols curve_fit freqs band median_min median_max amps weights0 nSigma
                 maxFlaggedFraction maxStddev ants s [] weights = Inr weights"
| "bandpass_pols curve_fit freqs band median_min median_max amps weights0 nSigma
                 maxFlaggedFraction maxStddev ants s (pol # pols) weights =
     (case bandpass_pol curve_fit freqs band median_min median_max amps weights0 nSigma
             maxFlaggedFraction maxStddev ants s pol weights of
        Inl e \<Rightarrow> Inl e
      | Inr weights' \<Rightarrow>
          bandpass_pols curve_fit freqs band median_min median_max amps weights0 nSigma
            maxFlaggedFraction maxStddev ants s pols weights')"

text \<open>
  \<^verbatim>\<open>_flag_bandpass\<close>, lines 132-461, for \<open>plot = False\<close> (what \<^verbatim>\<open>run\<close> passes;
  plotting is not modelled). The result is an exception, or the item \<open>[s, weights]\<close> put
  on the queue together with the value the function returns (\<open>None\<close>, or \<open>1\<close> for an
  unsupported telescope). The array \<open>amps\<close> is only read: the task works on copies.
\<close>

definition flag_bandpass ::
  "curve_fit_t \<Rightarrow> fl list \<Rightarrow> arr3 \<Rightarrow> arr3 \<Rightarrow> string \<Rightarrow> fl \<Rightarrow> fl \<Rightarrow> fl \<Rightarrow> string list \<Rightarrow> nat
     \<Rightarrow> pyerr + (nat \<times> arr3) \<times> int option" where
  "flag_bandpass curve_fit freqs amps weights telescope nSigma maxFlaggedFraction maxStddev ants s =
     (if lower telescope = ''lofar'' then
        (case select_band freqs of
           Inl e \<Rightarrow> Inl e
         | Inr (band, median_min, median_max) \<Rightarrow>
             if all_zero weights then Inr ((s, weights), None)
             else
               (case bandpass_pols curve_fit freqs band median_min median_max amps weights nSigma
                       maxFlaggedFraction maxStddev ants s [0..<npol amps] weights of
                  Inl e \<Rightarrow> Inl e
                | Inr weights' \<Rightarrow> Inr ((s, weights'), None)))
      else Inr ((s, weights), Some 1))"

section \<open>The operation \<open>run\<close>\<close>

text \<open>
  The solution table, as far as \<^verbatim>\<open>run\<close> reads and writes it. The value and the
  weight array are held in the canonical axis order that lines 505-522 produce, as one
  \<open>[time, freq, pol]\<close> slice for each direction and antenna: \<open>val ! d ! s\<close> is
  \<^verbatim>\<open>vals_arraytmp[:, s, :, :, d]\<close>, and a table without a direction axis has the
  single list \<open>val ! 0\<close>. The transposition itself, the history and the export of
  station flags to another table (lines 584-604, \<open>soltabExport\<close>) are not modelled;
  \<open>refAnt\<close> and \<open>ncpu\<close> do not enter the result.
\<close>

record soltab =
  axes_names :: "string list"
  sol_type :: string
  ant :: "string list"
  freq :: "fl list"
  dir :: "string list"
  val :: "arr3 list list"
  weight :: "arr3 list list"

text \<open>Lines 525-526, on one slice: \<open>weights_arraytmp[np.isnan(vals_arraytmp)] = 0.0\<close>.\<close>

definition flag_nans :: "arr3 \<Rightarrow> arr3 \<Rightarrow> arr3" where
  "flag_nans v w =
     w\<lparr>dat := (\<lambda>t f p. if t < ntime w \<and> f < nfreq w \<and> p < npol w \<and> isnan (dat v t f p)
                         then Fin 0 else dat w t f p)\<rparr>"

text \<open>The argument lists that \<^verbatim>\<open>run\<close> puts on the queue (lines 537-538, 563 and
  570), without the queue itself.\<close>

record bandpass_args =
  ba_freqs :: "fl list"
  ba_amps :: arr3
  ba_weights :: arr3
  ba_telescope :: string
  ba_nSigma :: fl
  ba_maxFlaggedFraction :: fl
  ba_maxStddev :: fl
  ba_plot :: bool
  ba_ants :: "string list"
  ba_s :: nat

record resid_args =
  ra_vals :: arr3
  ra_weights :: arr3
  ra_soltype :: string
  ra_nSigma :: fl
  ra_maxFlaggedFraction :: fl
  ra_maxStddev :: fl
  ra_ants :: "string list"
  ra_s :: nat

definition bandpass_tasks ::
  "soltab \<Rightarrow> arr3 list \<Rightarrow> arr3 list \<Rightarrow> string \<Rightarrow> fl \<Rightarrow> fl \<Rightarrow> bandpass_args list" where
  "bandpass_tasks soltab vals weights telescope nSigma maxFlaggedFraction =
     map (\<lambda>s. \<lparr>ba_freqs = freq soltab, ba_amps = vals ! s, ba_weights = weights ! s,
                ba_telescope = telescope, ba_nSigma = nSigma,
                ba_maxFlaggedFraction = maxFlaggedFraction, ba_maxStddev = Fin 0.01,
                ba_plot = False, ba_ants = ant soltab, ba_s = s\<rparr>)
         [0..<length (ant soltab)]"

definition resid_tasks ::
  "soltab \<Rightarrow> arr3 list \<Rightarrow> arr3 list \<Rightarrow> fl \<Rightarrow> fl \<Rightarrow> resid_args list" where
  "resid_tasks soltab vals weights nSigma maxFlaggedFraction =
     (let solType = sol_type soltab;
          maxStddev = (if solType = ''phase'' then Fin 0.1 else Fin 0.02)
      in map (\<lambda>s. \<lparr>ra_vals = vals ! s, ra_weights = weights ! s, ra_soltype = solType,
                   ra_nSigma = nSigma, ra_maxFlaggedFraction = maxFlaggedFraction,
                   ra_maxStddev = maxStddev, ra_ants = ant soltab, ra_s = s\<rparr>)
             [0..<length (ant soltab)])"

definition call_bandpass :: "curve_fit_t \<Rightarrow> bandpass_args \<Rightarrow> pyerr + nat \<times> arr3" where
  "call_bandpass curve_fit a =
     (case flag_bandpass curve_fit (ba_freqs a) (ba_amps a) (ba_weights a) (ba_telescope a)
             (ba_nSigma a) (ba_maxFlaggedFraction a) (ba_maxStddev a) (ba_ants a) (ba_s a) of
        Inl e \<Rightarrow> Inl e
      | Inr (item, ret) \<Rightarrow> Inr item)"

definition call_resid :: "resid_args \<Rightarrow> pyerr + nat \<times> arr3" where
  "call_resid a =
     (case flag_resid (ra_vals a) (ra_weights a) (ra_soltype a) (ra_nSigma a)
             (ra_maxFlaggedFraction a) (ra_maxStddev a) (ra_ants a) (ra_s a) of
        Inl e \<Rightarrow> Inl e
      | Inr (vals', item) \<Rightarrow> Inr item)"

text \<open>
  Modelled from the spec: \<^verbatim>\<open>multiprocManager\<close> of \<^verbatim>\<open>losoto.lib_operations\<close> is
  not among the sources. The spec says of the runner that it executes the tasks on
  independent workers and returns the set of (antenna index, updated weight slice)
  results (4.6), the items that the tasks put on the queue, that a task which raises leaves its antenna's weights unmodified (4.6, 7), and that a configuration
  error met in a task (\<open>sys.exit\<close>) is fatal for the whole run, which aborts with the
  non-zero status and no result (7). \<open>mpm_get\<close> maps the outcomes of the tasks to the
  items of \<^verbatim>\<open>mpm.get()\<close>.
\<close>

fun mpm_get :: "(pyerr + nat \<times> arr3) list \<Rightarrow> pyerr + (nat \<times> arr3) list" where
  "mpm_get [] = Inr []"
| "mpm_get (Inl (SystemExit n) # rs) = Inl (SystemExit n)"
| "mpm_get (Inl e # rs) = mpm_get rs"
| "mpm_get (Inr item # rs) =
     (case mpm_get rs of Inl e \<Rightarrow> Inl e | Inr items \<Rightarrow> Inr (item # items))"

text \<open>\<open>for (s, w) in mpm.get(): weights_arraytmp[:, s, :, :] = w\<close>.\<close>

definition merge_weights :: "(nat \<times> arr3) list \<Rightarrow> arr3 list \<Rightarrow> arr3 list" where
  "merge_weights items weights = fold (\<lambda>(s, w) ws. ws[s := w]) items weights"

text \<open>Lines 559-573: the directions one after the other.\<close>

fun resid_dirs :: "soltab \<Rightarrow> fl \<Rightarrow> fl \<Rightarrow> arr3 list list \<Rightarrow> arr3 list list \<Rightarrow> pyerr + arr3 list list" where
  "resid_dirs soltab nSigma maxFlaggedFraction (v # vs) (w # ws) =
     (case mpm_get (map call_resid (resid_tasks soltab v w nSigma maxFlaggedFraction)) of
        Inl e \<Rightarrow> Inl e
      | Inr items \<Rightarrow>
          (case resid_dirs soltab nSigma maxFlaggedFraction vs ws of
             Inl e \<Rightarrow> Inl e
           | Inr ws' \<Rightarrow> Inr (merge_weights items w # ws')))"
| "resid_dirs soltab nSigma maxFlaggedFraction _ _ = Inr []"

text \<open>
  \<^verbatim>\<open>run(soltab, mode, maxFlaggedFraction, nSigma, telescope, ...)\<close>, lines 464-606:
  an exception, or the status returned and the table as the call leaves it. In bandpass
  mode a table with a direction axis hands four-dimensional slices to a task written for
  three dimensions; the model does not cover that configuration.
\<close>

definition run ::
  "curve_fit_t \<Rightarrow> soltab \<Rightarrow> string option \<Rightarrow> fl \<Rightarrow> fl \<Rightarrow> string \<Rightarrow> pyerr + int \<times> soltab" where
  "run curve_fit soltab mode maxFlaggedFraction nSigma telescope =
     (case mode of
        None \<Rightarrow> Inr (1, soltab)
      | Some m \<Rightarrow>
          if lower m \<notin> set [''bandpass'', ''resid''] then Inr (1, soltab)
          else if ''freq'' \<notin> set (axes_names soltab) \<or> ''pol'' \<notin> set (axes_names soltab) \<or>
                  ''time'' \<notin> set (axes_names soltab) \<or> ''ant'' \<notin> set (axes_names soltab)
          then Inr (1, soltab)
          else
            let vals_arraytmp = val soltab;
                weights_arraytmp = map2 (map2 flag_nans) (val soltab) (weight soltab)
            in if m = ''bandpass'' then
                 (if sol_type soltab \<noteq> ''amplitude'' then Inr (1, soltab)
                  else if ''dir'' \<in> set (axes_names soltab) then Inl Unmodelled
                  else
                    case mpm_get (map (call_bandpass curve_fit)
                                    (bandpass_tasks soltab (vals_arraytmp ! 0) (weights_arraytmp ! 0)
                                       telescope nSigma maxFlaggedFraction)) of
                      Inl e \<Rightarrow> Inl e
                    | Inr items \<Rightarrow>
                        Inr (0, soltab\<lparr>weight := [merge_weights items (weights_arraytmp ! 0)]\<rparr>))
               else
                 (if sol_type soltab \<notin> set [''phase'', ''amplitude''] then Inr (1, soltab)
                  else
                    case resid_dirs soltab nSigma maxFlaggedFraction vals_arraytmp weights_arraytmp of
                      Inl e \<Rightarrow> Inl e
                    | Inr ws \<Rightarrow> Inr (0, soltab\<lparr>weight := ws\<rparr>)))"

section \<open>Notions of the properties\<close>

text \<open>The indices of an array at which the weight is zero (\<open>weights == 0.0\<close>).\<close>

definition zero_set :: "arr3 \<Rightarrow> (nat \<times> nat \<times> nat) set" where
  "zero_set w = {(t, f, p). t < ntime w \<and> f < nfreq w \<and> p < npol w \<and> feq (dat w t f p) (Fin 0)}"

definition same_shape :: "arr3 \<Rightarrow> arr3 \<Rightarrow> bool" where
  "same_shape a b = (ntime a = ntime b \<and> nfreq a = nfreq b \<and> npol a = npol b)"

text \<open>\<open>w'\<close> has the shape of \<open>w\<close> and a zero wherever \<open>w\<close> has one.\<close>

definition keeps_zeros :: "arr3 \<Rightarrow> arr3 \<Rightarrow> bool" where
  "keeps_zeros w w' =
     (same_shape w w' \<and> (\<forall>t f p. feq (dat w t f p) (Fin 0) \<longrightarrow> feq (dat w' t f p) (Fin 0)))"

text \<open>
  The fraction of the originally unflagged points of a polarization that the last round
  of the clipping loop flags: in resid mode the cells of the slice, in bandpass mode the
  frequencies of the median spectrum (unflagged where the spectrum is not NaN). And: all
  weights of a polarization are zero.
\<close>

definition resid_flagged_fraction :: "string \<Rightarrow> nat \<Rightarrow> nat \<Rightarrow> slice2 \<Rightarrow> slice2 \<Rightarrow> loop_state \<Rightarrow> real" where
  "resid_flagged_fraction soltype nt nf v w fin =
     real (count_where nt nf
             (\<lambda>t f. bad fin t f \<and> \<not> feq (resid_weights_orig soltype v w t f) (Fin 0)))
       / real (resid_nsols soltype nt nf v w)"

definition bandpass_flagged_fraction :: "arr3 \<Rightarrow> arr3 \<Rightarrow> nat \<Rightarrow> nat \<Rightarrow> bp_loop_state \<Rightarrow> real" where
  "bandpass_flagged_fraction amps weights pol nsols_unflagged fin =
     real (length (filter (\<lambda>(b, a). b \<and> \<not> isnan a)
                     (zip (bp_bad fin) (median_spectrum amps weights pol))))
       / real nsols_unflagged"

definition pol_all_zero :: "arr3 \<Rightarrow> nat \<Rightarrow> bool" where
  "pol_all_zero w pol = (\<forall>t<ntime w. \<forall>f<nfreq w. dat w t f pol = Fin 0)"

text \<open>Arrays written as nested lists \<open>[time][freq][pol]\<close>, and read back.\<close>

definition of_lists :: "fl list list list \<Rightarrow> arr3" where
  "of_lists xs =
     \<lparr>ntime = length xs,
      nfreq = (case xs of [] \<Rightarrow> 0 | r # _ \<Rightarrow> length r),
      npol = (case xs of [] \<Rightarrow> 0 | r # _ \<Rightarrow> (case r of [] \<Rightarrow> 0 | c # _ \<Rightarrow> length c)),
      dat = (\<lambda>t f p. xs ! t ! f ! p)\<rparr>"

definition to_lists :: "arr3 \<Rightarrow> fl list list list" where
  "to_lists a =
     map (\<lambda>t. map (\<lambda>f. map (\<lambda>p. dat a t f p) [0..<npol a]) [0..<nfreq a]) [0..<ntime a]"

text \<open>A solver that does not converge: \<open>curve_fit\<close> raises \<open>RuntimeError\<close>, and the
  fitter falls back to the initial model.\<close>

definition fit_fails :: curve_fit_t where
  "fit_fails f x y sg b = Inl RuntimeError"

text \<open>
  Example data. Six amplitude solutions of one polarization, \<open>log10\<close> of which is
  \<open>0, 0, 0, 1, 3, 9\<close>, with all weights one, and with the last two flagged. A spectrum
  of three frequencies in the HBA-low band with two polarizations, the second one fully
  flagged, and an amplitude a thousand times the others at the third frequency.
\<close>

abbreviation amps6 :: arr3 where
  "amps6 \<equiv> of_lists [[[Fin 1]], [[Fin 1]], [[Fin 1]], [[Fin 10]], [[Fin 1000]], [[Fin 1000000000]]]"

abbreviation ones6 :: arr3 where
  "ones6 \<equiv> of_lists [[[Fin 1]], [[Fin 1]], [[Fin 1]], [[Fin 1]], [[Fin 1]], [[Fin 1]]]"

abbreviation flagged6 :: arr3 where
  "flagged6 \<equiv> of_lists [[[Fin 1]], [[Fin 1]], [[Fin 1]], [[Fin 1]], [[Fin 0]], [[Fin 0]]]"

abbreviation freqs3 :: "fl list" where
  "freqs3 \<equiv> [Fin 140000000, Fin 150000000, Fin 160000000]"

abbreviation amps3 :: arr3 where
  "amps3 \<equiv> of_lists [[[Fin 100, Fin 100], [Fin 100, Fin 100], [Fin 100000, Fin 100]]]"

abbreviation weights3 :: arr3 where
  "weights3 \<equiv> of_lists [[[Fin 1, Fin 0], [Fin 1, Fin 0], [Fin 1, Fin 0]]]"

text \<open>The HBA-low model with its initial coefficients at the three frequencies; the
  normalised median spectrum of the first polarization of the example; the state of its
  loop at the start and at the end.\<close>

abbreviation bp3 :: "fl list" where
  "bp3 \<equiv> [Fin (11294467331 / 742500000000), Fin (- (677586531 / 27500000000)),
           Fin (1039939 / 2500000000)]"

abbreviation amps_div3 :: "fl list" where
  "amps_div3 \<equiv> [Fin (1 / 10 powr (677586531 / 27500000000)),
                 Fin (1 / 10 powr (677586531 / 27500000000)),
                 Fin (1000 / 10 powr (677586531 / 27500000000))]"

abbreviation bp_init3 :: bp_loop_state where
  "bp_init3 \<equiv> \<lparr>bp_nflag = 0, bp_nflag_prev = - 1, bp_niter = 0,
                sigma_div = [Fin 1, Fin 1, Fin 100000000], bp_bad = [False, False, True],
                stdev_all = NaN, bp_sp = bp3, bp_rounds = 0\<rparr>"

abbreviation bp_final3 :: bp_loop_state where
  "bp_final3 \<equiv> \<lparr>bp_nflag = 1, bp_nflag_prev = 1, bp_niter = 2,
                 sigma_div = [Fin 1, Fin 1, Fin 100000000], bp_bad = [False, False, True],
                 stdev_all = Fin (sqrt (21888172288940154412780043402077921 /
                                        27565312500000001378265625000000000000)),
                 bp_sp = bp3, bp_rounds = 2\<rparr>"

text \<open>A table holding the example spectrum of one antenna.\<close>

abbreviation tab3 :: soltab where
  "tab3 \<equiv> \<lparr>axes_names = [''time'', ''ant'', ''freq'', ''pol''], sol_type = ''amplitude'',
            ant = [''CS001''], freq = freqs3, dir = [], val = [[amps3]], weight = [[weights3]]\<rparr>"













section \<open>Arithmetic and evaluation lemmas\<close>

lemma sqrt_less_iff_sq: "0 \<le> b \<Longrightarrow> (sqrt a < b) = (a < b * b)"
  by (metis abs_of_nonneg real_sqrt_abs2 real_sqrt_less_iff real_sqrt_mult)

lemma less_sqrt_iff_sq: "0 \<le> b \<Longrightarrow> (b < sqrt a) = (b * b < a)"
  by (metis abs_of_nonneg real_sqrt_abs2 real_sqrt_less_iff real_sqrt_mult)

lemma sqrt_mult_less_iff_sq:
  assumes "0 < c" and "0 \<le> b"
  shows "(sqrt a * c < b) = (a * (c * c) < b * b)"
proof -
  have "sqrt a * c = sqrt (a * (c * c))"
    using assms(1) by (simp add: real_sqrt_mult)
  then show ?thesis
    using assms(2) by (simp add: sqrt_less_iff_sq)
qed

lemma less_sqrt_mult_iff_sq:
  assumes "0 < c" and "0 \<le> b"
  shows "(b < sqrt a * c) = (b * b < a * (c * c))"
proof -
  have "sqrt a * c = sqrt (a * (c * c))"
    using assms(1) by (simp add: real_sqrt_mult)
  then show ?thesis
    using assms(2) by (simp add: less_sqrt_iff_sq)
qed

lemma mult_sqrt_less_iff_sq: "0 < c \<Longrightarrow> 0 \<le> b \<Longrightarrow> (c * sqrt a < b) = (a * (c * c) < b * b)"
  using sqrt_mult_less_iff_sq[of c b a] by (simp add: mult.commute)

lemma less_mult_sqrt_iff_sq: "0 < c \<Longrightarrow> 0 \<le> b \<Longrightarrow> (b < c * sqrt a) = (b * b < a * (c * c))"
  using less_sqrt_mult_iff_sq[of c b a] by (simp add: mult.commute)

lemmas sqrt_cmp = sqrt_less_iff_sq less_sqrt_iff_sq sqrt_mult_less_iff_sq less_sqrt_mult_iff_sq
  mult_sqrt_less_iff_sq less_mult_sqrt_iff_sq

lemma log10_pow: "log 10 (10 ^ n) = real n"
  by (subst log_nat_power) simp_all

lemma log10_1000: "log 10 1000 = 3"
  using log10_pow[of 3] by simp

lemma log10_1e9: "log 10 1000000000 = 9"
  using log10_pow[of 9] by simp

lemma log10_inv_powr: "log 10 (1 / 10 powr x) = - x"
  by (simp add: log_divide)

lemma log10_1000_powr: "log 10 (1000 / 10 powr x) = 3 - x"
  using log10_1000 by (simp add: log_divide)

lemma upt_1: "[0..<1] = [0]"
  by (simp add: upt_rec)

lemma upt_2: "[0..<2] = [0, 1]"
  by (simp add: upt_rec)

lemma upt_3: "[0..<3] = [0, 1, 2]"
  by (simp add: upt_rec)

lemma upt_6: "[0..<6] = [0, 1, 2, 3, 4, 5]"
  by (simp add: upt_rec)

lemma upt_10: "[0..<10] = [0, 1, 2, 3, 4, 5, 6, 7, 8, 9]"
  by (simp add: upt_rec)

lemmas upt_eval = upt_1 upt_2 upt_3 upt_6 upt_10

lemma of_lists_sel [simp]:
  "ntime (of_lists xs) = length xs"
  "nfreq (of_lists (r # rs)) = length r"
  "npol (of_lists ((c # r) # rs)) = length c"
  "dat (of_lists xs) t f p = xs ! t ! f ! p"
  by (simp_all add: of_lists_def)

lemma feq_zero [simp]: "feq (Fin 0) (Fin 0)"
  by (simp add: feq_def)

lemma feq_zero_iff: "feq x (Fin 0) = (x = Fin 0)"
  by (auto simp: feq_def)

section \<open>Weights are only ever set to zero\<close>

lemma keeps_zeros_refl: "keeps_zeros w w"
  by (simp add: keeps_zeros_def same_shape_def)

lemma keeps_zeros_trans: "keeps_zeros a b \<Longrightarrow> keeps_zeros b c \<Longrightarrow> keeps_zeros a c"
  by (simp add: keeps_zeros_def same_shape_def)

lemma keeps_zeros_zero_set: "keeps_zeros w w' \<Longrightarrow> zero_set w \<subseteq> zero_set w'"
  by (auto simp: keeps_zeros_def same_shape_def zero_set_def)

lemma keeps_zeros_set_pol:
  "(\<And>t f. feq (dat w t f pol) (Fin 0) \<Longrightarrow> feq (x t f) (Fin 0)) \<Longrightarrow> keeps_zeros w (set_pol w pol x)"
  by (simp add: keeps_zeros_def same_shape_def set_pol_def)

lemma resid_loop_weights_copy:
  "resid_loop nt nf vf wo ns ms nu st = Inr fin \<Longrightarrow>
   (\<And>t f. feq (wo t f) (Fin 0) \<Longrightarrow> feq (weights_copy st t f) (Fin 0)) \<Longrightarrow>
   feq (wo t f) (Fin 0) \<Longrightarrow> feq (weights_copy fin t f) (Fin 0)"
proof (induction nt nf vf wo ns ms nu st rule: resid_loop.induct)
  case (1 nt nf vf wo ns ms nu st)
  show ?case
    using "1.prems" "1.IH"
    apply (subst (asm) resid_loop.simps)
    apply (auto split: if_splits sum.splits prod.splits)
    done
qed

lemma resid_clip_weights_copy:
  assumes "resid_clip soltype ns ms nt nf v w = Inr fin"
    and "feq (resid_weights_orig soltype v w t f) (Fin 0)"
  shows "feq (weights_copy fin t f) (Fin 0)"
  by (rule resid_loop_weights_copy[OF assms(1)[unfolded resid_clip_def]])
     (simp_all add: loop_init_def assms(2))

lemma resid_weights_orig_zero:
  "feq (w t f) (Fin 0) \<Longrightarrow> feq (resid_weights_orig soltype v w t f) (Fin 0)"
  by (simp add: resid_weights_orig_def)

lemma resid_pol_keeps_zeros:
  assumes "resid_pol soltype ns mff ms ants s pol (vals, weights) = Inr (vals', weights')"
  shows "keeps_zeros weights weights'"
proof -
  let ?v = "pol_slice vals pol" and ?w = "pol_slice weights pol"
  let ?wo = "resid_weights_orig soltype ?v ?w"
  let ?w1 = "set_pol weights pol ?wo"
  have k1: "keeps_zeros weights ?w1"
    by (rule keeps_zeros_set_pol) (simp add: resid_weights_orig_zero pol_slice_def)
  have z: "keeps_zeros ?w1 (set_pol ?w1 pol (\<lambda>t f. Fin 0))"
    by (rule keeps_zeros_set_pol) simp
  have c: "keeps_zeros ?w1 (set_pol ?w1 pol (weights_copy fin))"
    if "resid_clip soltype ns ms (ntime weights) (nfreq weights) ?v ?w = Inr fin" for fin
    unfolding keeps_zeros_def same_shape_def
    using resid_clip_weights_copy[OF that]
    by (auto simp: set_pol_def)
  from assms have "weights' = ?w1 \<or> weights' = set_pol ?w1 pol (\<lambda>t f. Fin 0) \<or>
    (\<exists>fin. resid_clip soltype ns ms (ntime weights) (nfreq weights) ?v ?w = Inr fin
       \<and> weights' = set_pol ?w1 pol (weights_copy fin))"
    by (auto simp: resid_pol_def Let_def split: if_splits sum.splits)
  then show ?thesis
    using k1 z c by (auto intro: keeps_zeros_trans)
qed

lemma resid_pols_keeps_zeros:
  "resid_pols soltype ns mff ms ants s pols (vals, weights) = Inr (vals', weights') \<Longrightarrow>
   keeps_zeros weights weights'"
proof (induction pols arbitrary: vals weights)
  case Nil
  then show ?case by (simp add: keeps_zeros_refl)
next
  case (Cons pol pols)
  then show ?case
    by (auto split: sum.splits dest!: resid_pol_keeps_zeros intro: keeps_zeros_trans)
qed

lemma flag_resid_keeps_zeros:
  "flag_resid vals weights soltype ns mff ms ants s = Inr (vals', s', weights') \<Longrightarrow>
   keeps_zeros weights weights'"
  by (auto simp: flag_resid_def keeps_zeros_refl split: if_splits sum.splits
           dest: resid_pols_keeps_zeros)

lemma bandpass_pol_keeps_zeros:
  assumes "bandpass_pol cf freqs band mmin mmax amps w0 ns mff ms ants s pol weights = Inr weights'"
  shows "keeps_zeros weights weights'"
proof -
  let ?mask = "\<lambda>c. set_pol weights pol (\<lambda>t f. if c f then Fin 0 else dat weights t f pol)"
  have a: "keeps_zeros weights (set_pol weights pol (\<lambda>t f. Fin 0))"
    by (rule keeps_zeros_set_pol) simp
  have b: "keeps_zeros weights (?mask c)" for c
    by (rule keeps_zeros_set_pol) simp
  have c: "keeps_zeros weights (set_pol (?mask c) pol (\<lambda>t f. Fin 0))" for c
    by (rule keeps_zeros_trans[OF b]) (rule keeps_zeros_set_pol, simp)
  from assms have "weights' = weights \<or> weights' = set_pol weights pol (\<lambda>t f. Fin 0) \<or>
     (\<exists>c. weights' = ?mask c) \<or> (\<exists>c. weights' = set_pol (?mask c) pol (\<lambda>t f. Fin 0))"
    by (auto simp: bandpass_pol_def Let_def split: if_splits sum.splits)
  then show ?thesis
    using a b c keeps_zeros_refl by auto
qed

lemma bandpass_pols_keeps_zeros:
  "bandpass_pols cf freqs band mmin mmax amps w0 ns mff ms ants s pols weights = Inr weights' \<Longrightarrow>
   keeps_zeros weights weights'"
proof (induction pols arbitrary: weights)
  case Nil
  then show ?case by (simp add: keeps_zeros_refl)
next
  case (Cons pol pols)
  then show ?case
    by (auto split: sum.splits dest!: bandpass_pol_keeps_zeros intro: keeps_zeros_trans)
qed

lemma flag_bandpass_keeps_zeros:
  "flag_bandpass cf freqs amps weights tel ns mff ms ants s = Inr ((s', weights'), ret) \<Longrightarrow>
   keeps_zeros weights weights'"
  by (auto simp: flag_bandpass_def keeps_zeros_refl split: if_splits sum.splits
           dest: bandpass_pols_keeps_zeros)

section \<open>The rounds of the loops\<close>

lemma resid_loop_rounds_le:
  "resid_loop nt nf vf wo ns ms nu st = Inr fin \<Longrightarrow> niter st \<le> maxiter \<Longrightarrow>
   rounds fin + niter st \<le> rounds st + maxiter"
proof (induction nt nf vf wo ns ms nu st rule: resid_loop.induct)
  case (1 nt nf vf wo ns ms nu st)
  show ?case
    using "1.prems" "1.IH"
    apply (subst (asm) resid_loop.simps)
    apply (auto split: if_splits sum.splits prod.splits)
    done
qed

lemma bandpass_loop_rounds_le:
  "bandpass_loop cf fr band ad so ns ms nu st = Inr fin \<Longrightarrow> bp_niter st \<le> maxiter \<Longrightarrow>
   bp_rounds fin + bp_niter st \<le> bp_rounds st + maxiter"
proof (induction cf fr band ad so ns ms nu st rule: bandpass_loop.induct)
  case (1 cf fr band ad so ns ms nu st)
  show ?case
    using "1.prems" "1.IH"
    apply (subst (asm) bandpass_loop.simps)
    apply (auto split: if_splits sum.splits prod.splits)
    done
qed

lemma bandpass_prepare_init:
  "bandpass_prepare cf fr band amps w0 pol = Inr (ad, so, nu, st0) \<Longrightarrow>
   bp_niter st0 = 0 \<and> bp_rounds st0 = 0 \<and> bp_nflag st0 = 0 \<and> bp_nflag_prev st0 = - 1"
  by (auto simp: bandpass_prepare_def Let_def split: sum.splits prod.splits)

section \<open>The whole-polarization gate\<close>

lemma all_where_iff: "all_where nt nf c = (\<forall>t<nt. \<forall>f<nf. c t f)"
  by (auto simp: all_where_def cells_def list_all_iff)

lemma length_filter_mono:
  "(\<And>x. x \<in> set xs \<Longrightarrow> P x \<Longrightarrow> Q x) \<Longrightarrow> length (filter P xs) \<le> length (filter Q xs)"
  by (induction xs) auto

lemma count_where_mono:
  "(\<And>t f. P t f \<Longrightarrow> Q t f) \<Longrightarrow> count_where nt nf P \<le> count_where nt nf Q"
  unfolding count_where_def by (rule length_filter_mono) auto

lemma length_filter_zip_le:
  "length (filter (\<lambda>(b, a). b \<and> P a) (zip bs as)) \<le> length (filter (\<lambda>b. b) bs)"
proof (induction bs arbitrary: as)
  case Nil
  then show ?case by simp
next
  case (Cons b bs)
  then show ?case
    by (cases as) (auto intro: le_SucI)
qed

lemma fgt_mono: "fgt (Fin a) m \<Longrightarrow> a \<le> b \<Longrightarrow> fgt (Fin b) m"
  by (cases m) (auto simp: fgt_def)

lemma py_div_Fin:
  "py_div (Fin a) (Fin b) = (if b = 0 then Inl ZeroDivisionError else Inr (Fin (a / b)))"
  by (simp add: py_div_def feq_def)

lemma pol_slice_set_pol:
  "p \<noteq> q \<Longrightarrow> pol_slice (set_pol a q x) p = pol_slice a p"
  by (simp add: pol_slice_def set_pol_def)

lemma same_shape_set_pol [simp]: "same_shape a (set_pol a q x)"
  by (simp add: same_shape_def set_pol_def)

lemma same_shape_refl [simp]: "same_shape a a"
  by (simp add: same_shape_def)

lemma same_shape_trans: "same_shape a b \<Longrightarrow> same_shape b c \<Longrightarrow> same_shape a c"
  by (simp add: same_shape_def)

lemma resid_pol_frame:
  assumes "resid_pol soltype ns mff ms ants s q (vals, weights) = Inr (vals', weights')"
    and "p \<noteq> q"
  shows "pol_slice vals' p = pol_slice vals p \<and> pol_slice weights' p = pol_slice weights p
         \<and> same_shape vals vals' \<and> same_shape weights weights'"
  using assms
  by (auto simp: resid_pol_def Let_def pol_slice_set_pol
           intro: same_shape_trans[OF same_shape_set_pol same_shape_set_pol]
           split: if_splits sum.splits)

lemma resid_pols_frame:
  "resid_pols soltype ns mff ms ants s pols (vals, weights) = Inr (vals', weights') \<Longrightarrow>
   p \<notin> set pols \<Longrightarrow>
   pol_slice vals' p = pol_slice vals p \<and> pol_slice weights' p = pol_slice weights p
     \<and> same_shape vals vals' \<and> same_shape weights weights'"
proof (induction pols arbitrary: vals weights)
  case Nil
  then show ?case by simp
next
  case (Cons q pols)
  from Cons.prems obtain v1 w1 where
    1: "resid_pol soltype ns mff ms ants s q (vals, weights) = Inr (v1, w1)" and
    2: "resid_pols soltype ns mff ms ants s pols (v1, w1) = Inr (vals', weights')"
    by (auto split: sum.splits)
  from Cons.prems have "p \<noteq> q" "p \<notin> set pols" by auto
  from resid_pol_frame[OF 1 this(1)] Cons.IH[OF 2 this(2)]
  show ?case
    by (auto intro: same_shape_trans)
qed

lemma resid_pols_append:
  "resid_pols soltype ns mff ms ants s (xs @ ys) st =
     (case resid_pols soltype ns mff ms ants s xs st of
        Inl e \<Rightarrow> Inl e
      | Inr st' \<Rightarrow> resid_pols soltype ns mff ms ants s ys st')"
  by (induction xs arbitrary: st) (auto split: sum.splits)

lemma resid_pol_gate:
  assumes r: "resid_pol soltype ns mff ms ants s p (vals, weights) = Inr (vals', weights')"
    and c: "resid_clip soltype ns ms (ntime weights) (nfreq weights) (pol_slice vals p)
              (pol_slice weights p) = Inr fin"
    and g: "fgt (Fin (resid_flagged_fraction soltype (ntime weights) (nfreq weights)
              (pol_slice vals p) (pol_slice weights p) fin)) mff"
  shows "pol_all_zero weights' p"
proof (cases "all_where (ntime weights) (nfreq weights)
                (\<lambda>t f. feq (resid_weights_orig soltype (pol_slice vals p) (pol_slice weights p) t f) (Fin 0))")
  case True
  with r have "weights' = set_pol weights p
      (resid_weights_orig soltype (pol_slice vals p) (pol_slice weights p))"
    by (auto simp: resid_pol_def Let_def)
  with True show ?thesis
    by (auto simp: pol_all_zero_def set_pol_def all_where_iff feq_zero_iff)
next
  case False
  let ?n = "resid_nsols soltype (ntime weights) (nfreq weights) (pol_slice vals p) (pol_slice weights p)"
  let ?k = "count_where (ntime weights) (nfreq weights) (bad fin)"
  from False r c have n0: "?n \<noteq> 0"
    by (auto simp: resid_pol_def Let_def py_div_Fin split: if_splits)
  have "count_where (ntime weights) (nfreq weights)
          (\<lambda>t f. bad fin t f \<and> \<not> feq (resid_weights_orig soltype (pol_slice vals p)
             (pol_slice weights p) t f) (Fin 0)) \<le> ?k"
    by (rule count_where_mono) simp
  then have "resid_flagged_fraction soltype (ntime weights) (nfreq weights)
              (pol_slice vals p) (pol_slice weights p) fin \<le> real ?k / real ?n"
    unfolding resid_flagged_fraction_def by (simp add: divide_right_mono)
  from fgt_mono[OF g this] have "fgt (Fin (real ?k / real ?n)) mff" .
  with False r c n0 have "weights' = set_pol (set_pol weights p
      (resid_weights_orig soltype (pol_slice vals p) (pol_slice weights p))) p (\<lambda>t f. Fin 0)"
    by (auto simp: resid_pol_def Let_def py_div_Fin split: if_splits)
  then show ?thesis
    by (simp add: pol_all_zero_def set_pol_def)
qed


lemma keeps_zeros_pol_all_zero:
  "keeps_zeros w w' \<Longrightarrow> pol_all_zero w p \<Longrightarrow> pol_all_zero w' p"
  by (auto simp: keeps_zeros_def same_shape_def pol_all_zero_def feq_zero_iff)

lemma all_zero_pol_all_zero: "all_zero w \<Longrightarrow> p < npol w \<Longrightarrow> pol_all_zero w p"
  by (auto simp: all_zero_def pol_all_zero_def all_where_iff list_all_iff feq_zero_iff)

lemma upt_split: "p < n \<Longrightarrow> [0..<n] = [0..<p] @ p # [Suc p..<n]"
  using upt_add_eq_append[of 0 p "n - p"] upt_conv_Cons[of p n] by simp

lemma flag_resid_gate:
  assumes r: "flag_resid vals weights soltype ns mff ms ants s = Inr (vals', s', weights')"
    and sh: "same_shape vals weights"
    and p: "p < npol weights"
    and c: "resid_clip soltype ns ms (ntime weights) (nfreq weights) (pol_slice vals p)
              (pol_slice weights p) = Inr fin"
    and g: "fgt (Fin (resid_flagged_fraction soltype (ntime weights) (nfreq weights)
              (pol_slice vals p) (pol_slice weights p) fin)) mff"
  shows "pol_all_zero weights' p"
proof (cases "all_zero weights")
  case True
  with r have "weights' = weights"
    by (simp add: flag_resid_def)
  with True p show ?thesis
    by (simp add: all_zero_pol_all_zero)
next
  case False
  from sh p have pv: "p < npol vals"
    by (simp add: same_shape_def)
  from False r have
    "resid_pols soltype ns mff ms ants s ([0..<p] @ p # [Suc p..<npol vals]) (vals, weights)
       = Inr (vals', weights')"
    by (auto simp: flag_resid_def upt_split[OF pv, symmetric] split: sum.splits)
  then obtain v1 w1 v2 w2 where
    1: "resid_pols soltype ns mff ms ants s [0..<p] (vals, weights) = Inr (v1, w1)" and
    2: "resid_pol soltype ns mff ms ants s p (v1, w1) = Inr (v2, w2)" and
    3: "resid_pols soltype ns mff ms ants s [Suc p..<npol vals] (v2, w2) = Inr (vals', weights')"
    by (auto simp: resid_pols_append split: sum.splits)
  from resid_pols_frame[OF 1, of p] have
    f: "pol_slice v1 p = pol_slice vals p" "pol_slice w1 p = pol_slice weights p"
       "same_shape weights w1"
    by auto
  from f(3) have d: "ntime w1 = ntime weights" "nfreq w1 = nfreq weights"
    by (simp_all add: same_shape_def)
  have c': "resid_clip soltype ns ms (ntime w1) (nfreq w1) (pol_slice v1 p) (pol_slice w1 p)
      = Inr fin"
    using c f d by simp
  have g': "fgt (Fin (resid_flagged_fraction soltype (ntime w1) (nfreq w1)
              (pol_slice v1 p) (pol_slice w1 p) fin)) mff"
    using g f d by simp
  have "pol_all_zero w2 p"
    by (rule resid_pol_gate[OF 2 c' g'])
  with resid_pols_keeps_zeros[OF 3] show ?thesis
    by (rule keeps_zeros_pol_all_zero)
qed

lemma bandpass_pol_frame:
  assumes "bandpass_pol cf fr band mmin mmax amps w0 ns mff ms ants s q weights = Inr weights'"
    and "p \<noteq> q"
  shows "pol_slice weights' p = pol_slice weights p \<and> same_shape weights weights'"
  using assms
  by (auto simp: bandpass_pol_def Let_def pol_slice_set_pol
           intro: same_shape_trans[OF same_shape_set_pol same_shape_set_pol]
           split: if_splits sum.splits)

lemma bandpass_pols_frame:
  "bandpass_pols cf fr band mmin mmax amps w0 ns mff ms ants s pols weights = Inr weights' \<Longrightarrow>
   p \<notin> set pols \<Longrightarrow>
   pol_slice weights' p = pol_slice weights p \<and> same_shape weights weights'"
proof (induction pols arbitrary: weights)
  case Nil
  then show ?case by simp
next
  case (Cons q pols)
  from Cons.prems obtain w1 where
    1: "bandpass_pol cf fr band mmin mmax amps w0 ns mff ms ants s q weights = Inr w1" and
    2: "bandpass_pols cf fr band mmin mmax amps w0 ns mff ms ants s pols w1 = Inr weights'"
    by (auto split: sum.splits)
  from Cons.prems have "p \<noteq> q" "p \<notin> set pols" by auto
  from bandpass_pol_frame[OF 1 this(1)] Cons.IH[OF 2 this(2)]
  show ?case
    by (auto intro: same_shape_trans)
qed

lemma bandpass_pols_append:
  "bandpass_pols cf fr band mmin mmax amps w0 ns mff ms ants s (xs @ ys) weights =
     (case bandpass_pols cf fr band mmin mmax amps w0 ns mff ms ants s xs weights of
        Inl e \<Rightarrow> Inl e
      | Inr w' \<Rightarrow> bandpass_pols cf fr band mmin mmax amps w0 ns mff ms ants s ys w')"
  by (induction xs arbitrary: weights) (auto split: sum.splits)

lemma bandpass_pol_gate:
  assumes r: "bandpass_pol cf fr band mmin mmax amps w0 ns mff ms ants s p weights = Inr weights'"
    and c: "bandpass_clip cf fr band amps w0 ns ms p = Inr (n, fin)"
    and g: "fgt (Fin (bandpass_flagged_fraction amps w0 p n fin)) mff"
  shows "pol_all_zero weights' p"
proof (cases "all_where (ntime weights) (nfreq weights) (\<lambda>t f. feq (dat weights t f p) (Fin 0))")
  case True
  with r have "weights' = weights"
    by (simp add: bandpass_pol_def)
  with True show ?thesis
    by (auto simp: pol_all_zero_def all_where_iff feq_zero_iff)
next
  case False
  let ?k = "length (filter (\<lambda>b. b) (bp_bad fin))"
  show ?thesis
  proof (cases "fgt (stdev_all fin) (fmul ns ms)")
    case True
    with False r c have "weights' = set_pol weights p (\<lambda>t f. Fin 0)"
      by (auto simp: bandpass_pol_def split: if_splits)
    then show ?thesis
      by (simp add: pol_all_zero_def set_pol_def)
  next
    case nogate: False
    from False nogate r c have n0: "n \<noteq> 0"
      by (auto simp: bandpass_pol_def py_div_Fin split: if_splits)
    have "bandpass_flagged_fraction amps w0 p n fin \<le> real ?k / real n"
      unfolding bandpass_flagged_fraction_def
      by (simp add: divide_right_mono length_filter_zip_le)
    from fgt_mono[OF g this] have "fgt (Fin (real ?k / real n)) mff" .
    with False nogate r c n0 have "weights' = set_pol weights p (\<lambda>t f. Fin 0)"
      by (auto simp: bandpass_pol_def py_div_Fin split: if_splits)
    then show ?thesis
      by (simp add: pol_all_zero_def set_pol_def)
  qed
qed

lemma flag_bandpass_gate:
  assumes r: "flag_bandpass cf fr amps weights tel ns mff ms ants s = Inr ((s', weights'), ret)"
    and sh: "same_shape amps weights"
    and p: "p < npol weights"
    and b: "select_band fr = Inr (band, mmin, mmax)"
    and c: "bandpass_clip cf fr band amps weights ns ms p = Inr (n, fin)"
    and g: "fgt (Fin (bandpass_flagged_fraction amps weights p n fin)) mff"
    and tel: "lower tel = ''lofar''"
  shows "pol_all_zero weights' p"
proof (cases "all_zero weights")
  case True
  with r tel b have "weights' = weights"
    by (simp add: flag_bandpass_def)
  with True p show ?thesis
    by (simp add: all_zero_pol_all_zero)
next
  case False
  from sh p have pv: "p < npol amps"
    by (simp add: same_shape_def)
  from False r tel b have
    "bandpass_pols cf fr band mmin mmax amps weights ns mff ms ants s
       ([0..<p] @ p # [Suc p..<npol amps]) weights = Inr weights'"
    by (auto simp: flag_bandpass_def upt_split[OF pv, symmetric] split: sum.splits)
  then obtain w1 w2 where
    1: "bandpass_pols cf fr band mmin mmax amps weights ns mff ms ants s [0..<p] weights = Inr w1" and
    2: "bandpass_pol cf fr band mmin mmax amps weights ns mff ms ants s p w1 = Inr w2" and
    3: "bandpass_pols cf fr band mmin mmax amps weights ns mff ms ants s [Suc p..<npol amps] w2
          = Inr weights'"
    by (auto simp: bandpass_pols_append split: sum.splits)
  have "pol_all_zero w2 p"
    by (rule bandpass_pol_gate[OF 2 c g])
  with bandpass_pols_keeps_zeros[OF 3] show ?thesis
    by (rule keeps_zeros_pol_all_zero)
qed

section \<open>The mean and the residuals\<close>










lemma wrap_phase_range: "- pi < wrap_phase x \<and> wrap_phase x \<le> pi"
proof -
  let ?k = "\<lceil>(x - pi) / (2 * pi)\<rceil>"
  have 1: "(x - pi) / (2 * pi) \<le> of_int ?k" and 2: "of_int ?k < (x - pi) / (2 * pi) + 1"
    by linarith+
  have p: "0 < 2 * pi"
    by simp
  from 1 have a: "x - pi \<le> of_int ?k * (2 * pi)"
    by (simp only: pos_divide_le_eq[OF p])
  have "(x - pi) / (2 * pi) + 1 = (x - pi + 2 * pi) / (2 * pi)"
    using pi_gt_zero by (simp add: field_simps)
  with 2 have "of_int ?k < (x - pi + 2 * pi) / (2 * pi)"
    by (simp only:)
  then have b: "of_int ?k * (2 * pi) < x - pi + 2 * pi"
    by (simp only: pos_less_divide_eq[OF p])
  have e: "2 * pi * of_int ?k = of_int ?k * (2 * pi)"
    by simp
  show ?thesis
    unfolding wrap_phase_def e using a b by linarith
qed






section \<open>The value array of the residual task\<close>




section \<open>The examples, evaluated\<close>

lemmas resid_eval =
  flag_resid_def resid_pol_def pol_slice_def resid_clip_def resid_residuals_def resid_nsols_def
  resid_weights_orig_def resid_log_def resid_vals_flagged_def resid_mean_def loop_init_def
  bad_sols_def resid_loop.simps resid_round_def np_average_def pymin_def maxiter_def
  set_pol_def py_div_def to_lists_def flatten_def cells_def count_where_def all_where_def
  all_zero_def nansum_def fsum_def feq_def fle_def fge_def fgt_def Let_def
  upt_eval log10_1000 log10_1e9 sqrt_cmp

lemma resid_first_run:
  "map_sum id (\<lambda>(v, s, w). (to_lists v, s, to_lists w))
     (flag_resid amps6 ones6 ''amplitude'' (Fin 1) (Fin 0.5) (Fin 10) [''CS001''] 0)
   = Inr ([[[Fin 0]], [[Fin 0]], [[Fin 0]], [[Fin 1]], [[Fin 3]], [[Fin 9]]], 0,
          [[[Fin 1]], [[Fin 1]], [[Fin 1]], [[Fin 1]], [[Fin 0]], [[Fin 0]]])"
  by (simp add: resid_eval)

lemma resid_second_run:
  "map_sum id (\<lambda>(v, s, w). (to_lists v, s, to_lists w))
     (flag_resid amps6 flagged6 ''amplitude'' (Fin 1) (Fin 0.5) (Fin 10) [''CS001''] 0)
   = Inr ([[[Fin 0]], [[Fin 0]], [[Fin 0]], [[Fin 1]], [[Fin 0]], [[Fin 0]]], 0,
          [[[Fin 1]], [[Fin 1]], [[Fin 1]], [[Fin 0]], [[Fin 0]], [[Fin 0]]])"
  by (simp add: resid_eval)

lemma resid_clip_example:
  "map_sum id (\<lambda>fin. (nflag fin, nflag_prev fin, niter fin, rounds fin))
     (resid_clip ''amplitude'' (Fin 1) (Fin 10) 6 1 (pol_slice amps6 0) (pol_slice ones6 0))
   = Inr (2, 2, 2, 2)"
  by (simp add: resid_eval)

lemmas bspline_eval =
  bspline_def knots_HBA_low_def init_coeffs_HBA_low_def extrap_flags_def upt_eval
  fge_def fle_def feq_def fsub_def fsum_def eval_nat_numeral Let_def

lemma bspline_140: "bspline (Fin 140000000) knots_HBA_low init_coeffs_HBA_low 3 =
    Inr (Fin (11294467331 / 742500000000))"
  by (simp add: bspline_eval)

lemma bspline_150: "bspline (Fin 150000000) knots_HBA_low init_coeffs_HBA_low 3 =
    Inr (Fin (- (677586531 / 27500000000)))"
  by (simp add: bspline_eval)

lemma bspline_160: "bspline (Fin 160000000) knots_HBA_low init_coeffs_HBA_low 3 =
    Inr (Fin (1039939 / 2500000000))"
  by (simp add: bspline_eval)

lemma length_init_coeffs_HBA_low: "length init_coeffs_HBA_low = 10"
  by (simp add: init_coeffs_HBA_low_def)

lemma lower_lofar: "lower ''lofar'' = ''lofar''"
  by (simp add: lower_def lower_char_def)

lemma lower_hba_low: "lower ''hba_low'' = ''hba_low''"
  by (simp add: lower_def lower_char_def)

lemma fit_example: "fit_bandpass fit_fails freqs3 la sg ''hba_low'' df = Inr (None, bp3)"
  by (simp add: fit_bandpass_def fit_with_def fit_fails_def lower_hba_low bandpass_HBA_low_def
        bspline_140 bspline_150 bspline_160 length_init_coeffs_HBA_low Let_def)

lemma median_spectrum_example: "median_spectrum amps3 weights3 0 = [Fin 1, Fin 1, Fin 1000]"
  by (simp add: median_spectrum_def amps_flagged_def bp_flagged_def
      np_nanmedian_def np_median_def fl_sort_def upt_eval feq_def fle_def Let_def)

lemma prepare_example:
  "bandpass_prepare fit_fails freqs3 ''hba_low'' amps3 weights3 0 =
     Inr (amps_div3, [Fin 1, Fin 1, Fin 1], 3, bp_init3)"
  by (simp add: bandpass_prepare_def median_spectrum_example fit_example Let_def sigma_of_def
      bp_flagged_def upt_eval feq_def fle_def np_median_def fl_sort_def fsub_def fgt_def
      log10_inv_powr log10_1000_powr log10_1000)

lemma round_example:
  "bandpass_round fit_fails freqs3 ''hba_low'' amps_div3 (Fin 5) (Fin 0.01)
     [Fin 1, Fin 1, Fin 100000000] =
   Inr (bp3, Fin (sqrt (21888172288940154412780043402077921 /
                        27565312500000001378265625000000000000)), [False, False, True], 1)"
  by (simp add: bandpass_round_def fit_example np_average_def fsum_def feq_def fsub_def
        log10_inv_powr log10_1000_powr pymin_def fgt_def Let_def sqrt_cmp)

lemma loop_example:
  "bandpass_loop fit_fails freqs3 ''hba_low'' amps_div3 [Fin 1, Fin 1, Fin 1] (Fin 5) (Fin 0.01) 3
     bp_init3 = Inr bp_final3"
  apply (subst bandpass_loop.simps)
  apply (simp add: maxiter_def round_example[simplified])
  apply (subst bandpass_loop.simps)
  apply (simp add: maxiter_def round_example[simplified])
  apply (subst bandpass_loop.simps)
  apply (simp add: maxiter_def)
  done

lemma clip_example:
  "bandpass_clip fit_fails freqs3 ''hba_low'' amps3 weights3 (Fin 5) (Fin 0.01) 0 =
     Inr (3, bp_final3)"
  by (simp add: bandpass_clip_def prepare_example[simplified] loop_example[simplified])

lemma select_band_example: "select_band freqs3 = Inr (''hba_low'', Fin 50, Fin 200)"
  by (simp add: select_band_def np_median_def fl_sort_def fgt_def fle_def feq_def)

lemmas bandpass_eval =
  flag_bandpass_def lower_lofar select_band_example all_zero_def all_where_def cells_def
  upt_eval feq_def bandpass_pol_def clip_example[simplified] fgt_def py_div_def sqrt_cmp
  set_pol_def Let_def amps_where_positive_def np_nanmedian_def np_median_def fl_sort_def
  fle_def to_lists_def

lemma bandpass_example_half:
  "map_sum id (\<lambda>((s, w), r). (s, to_lists w, r))
     (flag_bandpass fit_fails freqs3 amps3 weights3 ''lofar'' (Fin 5) (Fin 0.5) (Fin 0.01)
        [''CS001''] 0)
   = Inr (0, [[[Fin 1, Fin 0], [Fin 1, Fin 0], [Fin 0, Fin 0]]], None)"
  by (simp add: bandpass_eval)

lemma bandpass_example_third:
  "map_sum id (\<lambda>((s, w), r). (s, to_lists w, r))
     (flag_bandpass fit_fails freqs3 amps3 weights3 ''lofar'' (Fin 5) (Fin 0.3) (Fin 0.01)
        [''CS001''] 0)
   = Inr (0, [[[Fin 0, Fin 0], [Fin 0, Fin 0], [Fin 0, Fin 0]]], None)"
  by (simp add: bandpass_eval)











lemma resid_loop_second_round:
  assumes "niter st > 0" and "resid_loop nt nf vf wo ns ms nu st = Inr fin"
  shows "rounds fin \<le> rounds st + 1"
  using assms
  apply (subst (asm) resid_loop.simps)
  apply (auto split: if_splits sum.splits prod.splits)
  apply (subst (asm) resid_loop.simps)
  apply (auto split: if_splits sum.splits prod.splits)
  done

lemma bandpass_loop_second_round:
  assumes "bp_niter st > 0" and "bandpass_loop cf fr band ad so ns ms nu st = Inr fin"
  shows "bp_rounds fin \<le> bp_rounds st + 1"
  using assms
  apply (subst (asm) bandpass_loop.simps)
  apply (auto split: if_splits sum.splits prod.splits)
  apply (subst (asm) bandpass_loop.simps)
  apply (auto split: if_splits sum.splits prod.splits)
  done

lemma resid_loop_two_rounds:
  assumes "resid_loop nt nf vf wo ns ms nu st = Inr fin" and "niter st = 0"
  shows "rounds fin \<le> rounds st + 2"
  using assms
  apply (subst (asm) resid_loop.simps)
  apply (auto split: if_splits sum.splits prod.splits)
  apply (drule resid_loop_second_round[rotated])
   apply auto
  done

lemma bandpass_loop_two_rounds:
  assumes "bandpass_loop cf fr band ad so ns ms nu st = Inr fin" and "bp_niter st = 0"
  shows "bp_rounds fin \<le> bp_rounds st + 2"
  using assms
  apply (subst (asm) bandpass_loop.simps)
  apply (auto split: if_splits sum.splits prod.splits)
  apply (drule bandpass_loop_second_round[rotated])
   apply auto
  done

lemma resid_rounds_example:
  "map_sum id snd (resid_round 6 1
      (resid_residuals ''amplitude'' 6 1 (pol_slice amps6 0) (pol_slice ones6 0))
      (Fin 1) (Fin 10) (pol_slice ones6 0)) = Inr 1 \<and>
   map_sum id snd (resid_round 6 1
      (resid_residuals ''amplitude'' 6 1 (pol_slice amps6 0) (pol_slice ones6 0))
      (Fin 1) (Fin 10)
      (pol_slice (of_lists [[[Fin 1]], [[Fin 1]], [[Fin 1]], [[Fin 1]], [[Fin 1]], [[Fin 0]]]) 0))
     = Inr 2 \<and>
   map_sum id snd (resid_round 6 1
      (resid_residuals ''amplitude'' 6 1 (pol_slice amps6 0) (pol_slice ones6 0))
      (Fin 1) (Fin 10) (pol_slice flagged6 0)) = Inr 3"
  by (simp add: resid_eval)





lemma lower_ska: "lower ''ska'' = ''ska''"
  by (simp add: lower_def lower_char_def)

lemma lower_bandpass: "lower ''bandpass'' = ''bandpass''"
  by (simp add: lower_def lower_char_def)

lemma run_unsupported_telescope:
  "map_sum id (\<lambda>(status, tab). (status, map (map to_lists) (weight tab)))
     (run fit_fails tab3 (Some ''bandpass'') (Fin 0.5) (Fin 5) ''ska'') =
   Inr (0, [[[[[Fin 1, Fin 0], [Fin 1, Fin 0], [Fin 1, Fin 0]]]]])"
  by (simp add: run_def lower_bandpass bandpass_tasks_def call_bandpass_def flag_bandpass_def
      lower_ska merge_weights_def flag_nans_def to_lists_def upt_eval Let_def)

lemma run_outside_bands:
  "run fit_fails (tab3\<lparr>freq := [Fin 250000000]\<rparr>) (Some ''bandpass'') (Fin 0.5) (Fin 5)
     ''lofar'' = Inl (SystemExit 1)"
  by (simp add: run_def lower_bandpass bandpass_tasks_def call_bandpass_def flag_bandpass_def
      lower_lofar select_band_def np_median_def fl_sort_def fgt_def upt_eval Let_def)

lemma resid_gate_example:
  "map_sum id (\<lambda>(v, s, w). (s, to_lists w))
     (flag_resid amps6 ones6 ''amplitude'' (Fin 1) (Fin 0.3) (Fin 10) [''CS001''] 0)
   = Inr (0, [[[Fin 0]], [[Fin 0]], [[Fin 0]], [[Fin 0]], [[Fin 0]], [[Fin 0]]])"
  by (simp add: resid_eval)

lemma resid_fraction_example:
  "map_sum id (resid_flagged_fraction ''amplitude'' 6 1 (pol_slice amps6 0) (pol_slice ones6 0))
     (resid_clip ''amplitude'' (Fin 1) (Fin 10) 6 1 (pol_slice amps6 0) (pol_slice ones6 0))
   = Inr (1 / 3)"
  by (simp add: resid_flagged_fraction_def resid_eval)

lemma bandpass_fraction_example:
  "bandpass_flagged_fraction amps3 weights3 0 3 bp_final3 = 1 / 3"
  by (simp add: bandpass_flagged_fraction_def median_spectrum_example)














section \<open>The claims\<close>

text \<open>
  C1. Monotonic flagging: whenever a task of either flagger completes, the set of indices
  at which the weight array it puts on the queue is zero contains the set of indices at
  which the weight array it was called with is zero. No weight goes from zero to
  nonzero.
\<close>

theorem flagging_keeps_zero_weights:
  "(flag_resid vals weights soltype nSigma maxFlaggedFraction maxStddev ants s =
      Inr (vals', s', weights') \<longrightarrow> zero_set weights \<subseteq> zero_set weights') \<and>
   (flag_bandpass curve_fit freqs amps bweights telescope bnSigma bmaxFlaggedFraction bmaxStddev
      bants bs = Inr ((bs', bweights'), ret) \<longrightarrow> zero_set bweights \<subseteq> zero_set bweights')"
proof (intro conjI impI)
  assume "flag_resid vals weights soltype nSigma maxFlaggedFraction maxStddev ants s =
      Inr (vals', s', weights')"
  then show "zero_set weights \<subseteq> zero_set weights'"
    by (intro keeps_zeros_zero_set flag_resid_keeps_zeros)
next
  assume "flag_bandpass curve_fit freqs amps bweights telescope bnSigma bmaxFlaggedFraction
      bmaxStddev bants bs = Inr ((bs', bweights'), ret)"
  then show "zero_set bweights \<subseteq> zero_set bweights'"
    by (intro keeps_zeros_zero_set flag_bandpass_keeps_zeros)
qed

theorem flagging_keeps_zero_weights_witness:
  "\<exists>vals' weights' weights''.
     flag_resid amps6 flagged6 ''amplitude'' (Fin 1) (Fin 0.5) (Fin 10) [''CS001''] 0 =
       Inr (vals', 0, weights') \<and>
     to_lists weights' = [[[Fin 1]], [[Fin 1]], [[Fin 1]], [[Fin 0]], [[Fin 0]], [[Fin 0]]] \<and>
     zero_set flagged6 \<subseteq> zero_set weights' \<and>
     flag_bandpass fit_fails freqs3 amps3 weights3 ''lofar'' (Fin 5) (Fin 0.5) (Fin 0.01)
       [''CS001''] 0 = Inr ((0, weights''), None) \<and>
     to_lists weights'' = [[[Fin 1, Fin 0], [Fin 1, Fin 0], [Fin 0, Fin 0]]] \<and>
     zero_set weights3 \<subseteq> zero_set weights''"
proof -
  obtain v' w' where r:
    "flag_resid amps6 flagged6 ''amplitude'' (Fin 1) (Fin 0.5) (Fin 10) [''CS001''] 0 =
       Inr (v', 0, w')"
    "to_lists w' = [[[Fin 1]], [[Fin 1]], [[Fin 1]], [[Fin 0]], [[Fin 0]], [[Fin 0]]]"
    using resid_second_run
    by (cases "flag_resid amps6 flagged6 ''amplitude'' (Fin 1) (Fin 0.5) (Fin 10) [''CS001''] 0")
       auto
  obtain w'' where b:
    "flag_bandpass fit_fails freqs3 amps3 weights3 ''lofar'' (Fin 5) (Fin 0.5) (Fin 0.01)
       [''CS001''] 0 = Inr ((0, w''), None)"
    "to_lists w'' = [[[Fin 1, Fin 0], [Fin 1, Fin 0], [Fin 0, Fin 0]]]"
    using bandpass_example_half
    by (cases "flag_bandpass fit_fails freqs3 amps3 weights3 ''lofar'' (Fin 5) (Fin 0.5)
                 (Fin 0.01) [''CS001''] 0")
       auto
  have "zero_set flagged6 \<subseteq> zero_set w' \<and> zero_set weights3 \<subseteq> zero_set w''"
    using flagging_keeps_zero_weights[where vals = amps6 and weights = flagged6
        and soltype = "''amplitude''" and nSigma = "Fin 1" and maxFlaggedFraction = "Fin 0.5"
        and maxStddev = "Fin 10" and ants = "[''CS001'']" and s = 0 and vals' = v' and s' = 0
        and weights' = w' and curve_fit = fit_fails and freqs = freqs3 and amps = amps3
        and bweights = weights3 and telescope = "''lofar''" and bnSigma = "Fin 5"
        and bmaxFlaggedFraction = "Fin 0.5" and bmaxStddev = "Fin 0.01"
        and bants = "[''CS001'']" and bs = 0 and bs' = 0 and bweights' = w'' and ret = None]
      r(1) b(1)
    by blast
  then show ?thesis
    using r b by blast
qed

text \<open>
  C5. Bounded iteration: the convergence loop of either flagger, started as the flagger
  starts it for a polarization, performs at most 5 rounds of fitting and flagging
  whenever it ends without an exception (the loop always ends: both loop functions are
  total).
\<close>

theorem loops_at_most_five_rounds:
  "(resid_clip soltype nSigma maxStddev nt nf v w = Inr fin \<longrightarrow> rounds fin \<le> 5) \<and>
   (bandpass_clip curve_fit freqs band amps winit bnSigma bmaxStddev pol = Inr (n, bfin)
      \<longrightarrow> bp_rounds bfin \<le> 5)"
proof (intro conjI impI)
  assume "resid_clip soltype nSigma maxStddev nt nf v w = Inr fin"
  from resid_loop_rounds_le[OF this[unfolded resid_clip_def]]
  show "rounds fin \<le> 5"
    by (simp add: loop_init_def maxiter_def)
next
  assume "bandpass_clip curve_fit freqs band amps winit bnSigma bmaxStddev pol = Inr (n, bfin)"
  then obtain ad so st0 where
    p: "bandpass_prepare curve_fit freqs band amps winit pol = Inr (ad, so, n, st0)" and
    l: "bandpass_loop curve_fit freqs band ad so bnSigma bmaxStddev n st0 = Inr bfin"
    by (auto simp: bandpass_clip_def split: sum.splits prod.splits)
  from bandpass_loop_rounds_le[OF l] bandpass_prepare_init[OF p]
  show "bp_rounds bfin \<le> 5"
    by (simp add: maxiter_def)
qed

theorem loops_at_most_five_rounds_witness:
  "\<exists>fin. resid_clip ''amplitude'' (Fin 1) (Fin 10) 6 1
            (pol_slice amps6 0) (pol_slice ones6 0) = Inr fin \<and>
          rounds fin = 2 \<and> rounds fin \<le> 5 \<and>
          bandpass_clip fit_fails freqs3 ''hba_low'' amps3 weights3 (Fin 5) (Fin 0.01) 0 =
            Inr (3, bp_final3) \<and>
          bp_rounds bp_final3 \<le> 5"
proof -
  obtain fin where r:
    "resid_clip ''amplitude'' (Fin 1) (Fin 10) 6 1
       (pol_slice amps6 0) (pol_slice ones6 0) = Inr fin"
    "rounds fin = 2"
    using resid_clip_example
    by (cases "resid_clip ''amplitude'' (Fin 1) (Fin 10) 6 1
                 (pol_slice amps6 0) (pol_slice ones6 0)")
       auto
  have "rounds fin \<le> 5 \<and> bp_rounds bp_final3 \<le> 5"
    using loops_at_most_five_rounds[where soltype = "''amplitude''" and nSigma = "Fin 1"
        and maxStddev = "Fin 10" and nt = 6 and nf = 1 and v = "pol_slice amps6 0"
        and w = "pol_slice ones6 0" and fin = fin and curve_fit = fit_fails
        and freqs = freqs3 and band = "''hba_low''" and amps = amps3 and winit = weights3
        and bnSigma = "Fin 5" and bmaxStddev = "Fin 0.01" and pol = 0 and n = 3
        and bfin = bp_final3]
      r(1) clip_example
    by blast
  then show ?thesis
    using r clip_example by blast
qed

text \<open>
  C4. The claim: the loop ends early exactly when the number of flagged points stops
  changing between consecutive rounds or is degenerate, and otherwise runs to the cap of
  five iterations. The code assigns \<open>nflag_prev = nflag\<close> in the round that computed
  \<open>nflag\<close> (from the second round on), so the test \<open>nflag != nflag_prev\<close> fails after the
  second round whatever the numbers are: neither loop ever performs a third round.
\<close>

theorem loops_stop_after_two_rounds:
  "(resid_clip soltype nSigma maxStddev nt nf v w = Inr fin \<longrightarrow> rounds fin \<le> 2) \<and>
   (bandpass_clip curve_fit freqs band amps winit bnSigma bmaxStddev pol = Inr (n, bfin)
      \<longrightarrow> bp_rounds bfin \<le> 2)"
proof (intro conjI impI)
  assume "resid_clip soltype nSigma maxStddev nt nf v w = Inr fin"
  from resid_loop_two_rounds[OF this[unfolded resid_clip_def]]
  show "rounds fin \<le> 2"
    by (simp add: loop_init_def)
next
  assume "bandpass_clip curve_fit freqs band amps winit bnSigma bmaxStddev pol = Inr (n, bfin)"
  then obtain ad so st0 where
    p: "bandpass_prepare curve_fit freqs band amps winit pol = Inr (ad, so, n, st0)" and
    l: "bandpass_loop curve_fit freqs band ad so bnSigma bmaxStddev n st0 = Inr bfin"
    by (auto simp: bandpass_clip_def split: sum.splits prod.splits)
  from bandpass_loop_two_rounds[OF l] bandpass_prepare_init[OF p]
  show "bp_rounds bfin \<le> 2"
    by simp
qed

text \<open>
  The failing input of C4: on the six amplitudes the first round flags one point, the
  second round two, and a third round (with the mask of the second) would flag three;
  the loop has ended after the second round, with \<open>niter = 2\<close>.
\<close>

theorem loops_stop_after_two_rounds_witness:
  "\<exists>fin. resid_clip ''amplitude'' (Fin 1) (Fin 10) 6 1 (pol_slice amps6 0) (pol_slice ones6 0) =
            Inr fin \<and>
          nflag fin = 2 \<and> niter fin = 2 \<and> rounds fin = 2 \<and> rounds fin \<le> 2 \<and>
          map_sum id snd (resid_round 6 1
            (resid_residuals ''amplitude'' 6 1 (pol_slice amps6 0) (pol_slice ones6 0))
            (Fin 1) (Fin 10) (pol_slice ones6 0)) = Inr 1 \<and>
          map_sum id snd (resid_round 6 1
            (resid_residuals ''amplitude'' 6 1 (pol_slice amps6 0) (pol_slice ones6 0))
            (Fin 1) (Fin 10) (pol_slice flagged6 0)) = Inr 3 \<and>
          bandpass_clip fit_fails freqs3 ''hba_low'' amps3 weights3 (Fin 5) (Fin 0.01) 0 =
            Inr (3, bp_final3) \<and>
          bp_rounds bp_final3 \<le> 2"
proof -
  obtain fin where r:
    "resid_clip ''amplitude'' (Fin 1) (Fin 10) 6 1 (pol_slice amps6 0) (pol_slice ones6 0) =
       Inr fin"
    "nflag fin = 2" "niter fin = 2" "rounds fin = 2"
    using resid_clip_example
    by (cases "resid_clip ''amplitude'' (Fin 1) (Fin 10) 6 1
                 (pol_slice amps6 0) (pol_slice ones6 0)")
       auto
  have "rounds fin \<le> 2 \<and> bp_rounds bp_final3 \<le> 2"
    using loops_stop_after_two_rounds[where soltype = "''amplitude''" and nSigma = "Fin 1"
        and maxStddev = "Fin 10" and nt = 6 and nf = 1 and v = "pol_slice amps6 0"
        and w = "pol_slice ones6 0" and fin = fin and curve_fit = fit_fails
        and freqs = freqs3 and band = "''hba_low''" and amps = amps3 and winit = weights3
        and bnSigma = "Fin 5" and bmaxStddev = "Fin 0.01" and pol = 0 and n = 3
        and bfin = bp_final3]
      r(1) clip_example
    by blast
  then show ?thesis
    using r clip_example resid_rounds_example by blast
qed


text \<open>
  C2. The claim: in bandpass mode an unsupported telescope, like a median frequency
  outside both bands, aborts the run with a non-zero status and no weight result. The
  code: for an unsupported telescope the task logs an error, puts its weight slice on the
  queue unchanged and returns 1, a value nobody reads; only the median frequency outside
  the bands ends in \<open>sys.exit(1)\<close>.
\<close>

theorem unsupported_telescope_puts_weights:
  "lower telescope \<noteq> ''lofar'' \<Longrightarrow>
   flag_bandpass curve_fit freqs amps weights telescope nSigma maxFlaggedFraction maxStddev ants s
     = Inr ((s, weights), Some 1)"
  by (simp add: flag_bandpass_def)

text \<open>
  The failing input of C2: with \<open>telescope = ''ska''\<close>, \<^verbatim>\<open>run\<close> on the example table
  returns status 0 and writes the weights; with a median frequency of 250 MHz it ends in
  \<open>SystemExit(1)\<close>.
\<close>

theorem unsupported_telescope_puts_weights_witness:
  "lower ''ska'' \<noteq> ''lofar'' \<and>
   flag_bandpass fit_fails freqs3 amps3 weights3 ''ska'' (Fin 5) (Fin 0.5) (Fin 0.01)
     [''CS001''] 0 = Inr ((0, weights3), Some 1) \<and>
   map_sum id (\<lambda>(status, tab). (status, map (map to_lists) (weight tab)))
     (run fit_fails tab3 (Some ''bandpass'') (Fin 0.5) (Fin 5) ''ska'') =
     Inr (0, [[[[[Fin 1, Fin 0], [Fin 1, Fin 0], [Fin 1, Fin 0]]]]]) \<and>
   run fit_fails (tab3\<lparr>freq := [Fin 250000000]\<rparr>) (Some ''bandpass'') (Fin 0.5) (Fin 5)
     ''lofar'' = Inl (SystemExit 1)"
proof -
  have h: "lower ''ska'' \<noteq> ''lofar''"
    by (simp add: lower_ska)
  show ?thesis
    using h unsupported_telescope_puts_weights[OF h, of fit_fails freqs3 amps3 weights3
        "Fin 5" "Fin 0.5" "Fin 0.01" "[''CS001'']" 0]
      run_unsupported_telescope run_outside_bands
    by blast
qed






text \<open>
  C8. The full-flag gate: when a task completes and, for a polarization, the fraction of
  the originally unflagged points that the last round of the clipping loop flags exceeds
  \<open>maxFlaggedFraction\<close>, every weight of that polarization in the weight array put on
  the queue is zero. (In bandpass mode: for the supported telescope and a supported
  band, where the clipping runs.)
\<close>

theorem full_flag_gate:
  "(flag_resid vals weights soltype nSigma maxFlaggedFraction maxStddev ants s =
      Inr (vals', s', weights') \<longrightarrow>
    same_shape vals weights \<longrightarrow> p < npol weights \<longrightarrow>
    resid_clip soltype nSigma maxStddev (ntime weights) (nfreq weights) (pol_slice vals p)
      (pol_slice weights p) = Inr fin \<longrightarrow>
    fgt (Fin (resid_flagged_fraction soltype (ntime weights) (nfreq weights)
                (pol_slice vals p) (pol_slice weights p) fin)) maxFlaggedFraction \<longrightarrow>
    pol_all_zero weights' p) \<and>
   (flag_bandpass curve_fit freqs amps bweights telescope bnSigma bmaxFlaggedFraction bmaxStddev
      bants bs = Inr ((bs', bweights'), ret) \<longrightarrow>
    same_shape amps bweights \<longrightarrow> q < npol bweights \<longrightarrow> lower telescope = ''lofar'' \<longrightarrow>
    select_band freqs = Inr (band, median_min, median_max) \<longrightarrow>
    bandpass_clip curve_fit freqs band amps bweights bnSigma bmaxStddev q = Inr (n, bfin) \<longrightarrow>
    fgt (Fin (bandpass_flagged_fraction amps bweights q n bfin)) bmaxFlaggedFraction \<longrightarrow>
    pol_all_zero bweights' q)"
  by (intro conjI impI; (erule (4) flag_resid_gate | erule (6) flag_bandpass_gate))

theorem full_flag_gate_witness:
  "\<exists>vals' weights' fin bweights'.
     flag_resid amps6 ones6 ''amplitude'' (Fin 1) (Fin 0.3) (Fin 10) [''CS001''] 0 =
       Inr (vals', 0, weights') \<and>
     same_shape amps6 ones6 \<and> (0 :: nat) < npol ones6 \<and>
     resid_clip ''amplitude'' (Fin 1) (Fin 10) 6 1 (pol_slice amps6 0) (pol_slice ones6 0) =
       Inr fin \<and>
     resid_flagged_fraction ''amplitude'' 6 1 (pol_slice amps6 0) (pol_slice ones6 0) fin
       = 1 / 3 \<and>
     fgt (Fin (1 / 3)) (Fin 0.3) \<and>
     to_lists weights' = [[[Fin 0]], [[Fin 0]], [[Fin 0]], [[Fin 0]], [[Fin 0]], [[Fin 0]]] \<and>
     pol_all_zero weights' 0 \<and>
     flag_bandpass fit_fails freqs3 amps3 weights3 ''lofar'' (Fin 5) (Fin 0.3) (Fin 0.01)
       [''CS001''] 0 = Inr ((0, bweights'), None) \<and>
     same_shape amps3 weights3 \<and> (0 :: nat) < npol weights3 \<and> lower ''lofar'' = ''lofar'' \<and>
     select_band freqs3 = Inr (''hba_low'', Fin 50, Fin 200) \<and>
     bandpass_clip fit_fails freqs3 ''hba_low'' amps3 weights3 (Fin 5) (Fin 0.01) 0 =
       Inr (3, bp_final3) \<and>
     bandpass_flagged_fraction amps3 weights3 0 3 bp_final3 = 1 / 3 \<and>
     to_lists bweights' = [[[Fin 0, Fin 0], [Fin 0, Fin 0], [Fin 0, Fin 0]]] \<and>
     pol_all_zero bweights' 0"
proof -
  obtain v' w' where r:
    "flag_resid amps6 ones6 ''amplitude'' (Fin 1) (Fin 0.3) (Fin 10) [''CS001''] 0 =
       Inr (v', 0, w')"
    "to_lists w' = [[[Fin 0]], [[Fin 0]], [[Fin 0]], [[Fin 0]], [[Fin 0]], [[Fin 0]]]"
    using resid_gate_example
    by (cases "flag_resid amps6 ones6 ''amplitude'' (Fin 1) (Fin 0.3) (Fin 10) [''CS001''] 0")
       auto
  obtain fin where c:
    "resid_clip ''amplitude'' (Fin 1) (Fin 10) 6 1 (pol_slice amps6 0) (pol_slice ones6 0) =
       Inr fin"
    "resid_flagged_fraction ''amplitude'' 6 1 (pol_slice amps6 0) (pol_slice ones6 0) fin
       = 1 / 3"
    using resid_fraction_example
    by (cases "resid_clip ''amplitude'' (Fin 1) (Fin 10) 6 1
                 (pol_slice amps6 0) (pol_slice ones6 0)")
       auto
  obtain b' where b:
    "flag_bandpass fit_fails freqs3 amps3 weights3 ''lofar'' (Fin 5) (Fin 0.3) (Fin 0.01)
       [''CS001''] 0 = Inr ((0, b'), None)"
    "to_lists b' = [[[Fin 0, Fin 0], [Fin 0, Fin 0], [Fin 0, Fin 0]]]"
    using bandpass_example_third
    by (cases "flag_bandpass fit_fails freqs3 amps3 weights3 ''lofar'' (Fin 5) (Fin 0.3)
                 (Fin 0.01) [''CS001''] 0")
       auto
  have sh: "same_shape amps6 ones6" "(0 :: nat) < npol ones6"
    "same_shape amps3 weights3" "(0 :: nat) < npol weights3"
    by (simp_all add: same_shape_def)
  have g: "fgt (Fin (1 / 3)) (Fin 0.3)"
    by (simp add: fgt_def)
  have nt: "ntime ones6 = 6" and nf: "nfreq ones6 = 1"
    by simp_all
  have c6: "resid_clip ''amplitude'' (Fin 1) (Fin 10) (ntime ones6) (nfreq ones6)
      (pol_slice amps6 0) (pol_slice ones6 0) = Inr fin"
    by (simp only: nt nf c(1))
  have g6: "fgt (Fin (resid_flagged_fraction ''amplitude'' (ntime ones6) (nfreq ones6)
      (pol_slice amps6 0) (pol_slice ones6 0) fin)) (Fin 0.3)"
    by (simp only: nt nf c(2) g)
  have g3: "fgt (Fin (bandpass_flagged_fraction amps3 weights3 0 3 bp_final3)) (Fin 0.3)"
    by (simp only: bandpass_fraction_example g)
  have "pol_all_zero w' 0 \<and> pol_all_zero b' 0"
    using full_flag_gate[where vals = amps6 and weights = ones6 and soltype = "''amplitude''"
        and nSigma = "Fin 1" and maxFlaggedFraction = "Fin 0.3" and maxStddev = "Fin 10"
        and ants = "[''CS001'']" and s = 0 and vals' = v' and s' = 0 and weights' = w'
        and p = 0 and fin = fin and curve_fit = fit_fails and freqs = freqs3 and amps = amps3
        and bweights = weights3 and telescope = "''lofar''" and bnSigma = "Fin 5"
        and bmaxFlaggedFraction = "Fin 0.3" and bmaxStddev = "Fin 0.01"
        and bants = "[''CS001'']" and bs = 0 and bs' = 0 and bweights' = b' and ret = None
        and q = 0 and band = "''hba_low''" and median_min = "Fin 50"
        and median_max = "Fin 200" and n = 3 and bfin = bp_final3]
      r(1) b(1) sh c6 g6 g3 lower_lofar select_band_example clip_example
    by blast
  then show ?thesis
    using r c b sh g lower_lofar select_band_example clip_example bandpass_fraction_example
    by blast
qed








end
